theory Spec2Isabelle
  imports Main
begin

section \<open>Values handled by the configuration layer\<close>

text \<open>
  The raw configuration and the bundled default document are untyped JavaScript values.
  The embedding covers the values of a JSON document: null, booleans, numbers (an integer,
  or a number that is not an integer, kept as its literal), strings, plain objects and
  arrays. An object is the association list of its own properties, looked up with
  \<open>map_of\<close>. An array is the list of its elements; its own properties are the indices,
  written in decimal, and \<open>length\<close>. Left out are \<open>undefined\<close>, functions and class
  instances, and the properties that every object inherits from its prototype
  (\<open>constructor\<close>, \<open>toString\<close> and the like), whose values are functions: no key that
  \<open>model.js\<close> looks up is one of them.
\<close>

datatype jsval =
    JNull
  | JBool bool
  | JInt int
  | JNonInt string
  | JStr string
  | JObj "(string \<times> jsval) list"
  | JArr "jsval list"

fun decimal :: "nat \<Rightarrow> string" where
  "decimal n =
     (if n < 10 then [''0123456789'' ! n]
      else decimal (n div 10) @ [''0123456789'' ! (n mod 10)])"

declare decimal.simps [simp del]

definition array_properties :: "jsval list \<Rightarrow> (string \<times> jsval) list" where
  "array_properties xs =
     zip (map decimal [0..<length xs]) xs @ [(''length'', JInt (int (length xs)))]"

text \<open>The own properties of an object or an array; a value of another type has none.\<close>

definition members :: "jsval \<Rightarrow> (string \<times> jsval) list option" where
  "members v =
     (case v of
        JObj kvs \<Rightarrow> Some kvs
      | JArr xs \<Rightarrow> Some (array_properties xs)
      | _ \<Rightarrow> None)"

section \<open>The traversal package\<close>

text \<open>
  Modelled from the spec: the field primitives. \<open>model.js\<close> checks every field through
  the fluent interface of the package \<open>xrtlibrary-traverse\<close>, a dependency whose code is
  not part of the sources. The specification describes the primitives as \<open>requireField\<close>
  (\<open>sub\<close> followed by \<open>notNull\<close>), \<open>optionalField\<close> (\<open>optionalSub\<close>) and \<open>assertType\<close>
  (\<open>typeOf(Object)\<close>, \<open>boolean\<close>, \<open>integer\<close>, \<open>string\<close>):
  \<^item> \<open>sub(name)\<close> fails when the wrapped value is not an object or lacks the key; a key
    whose value is null exists (\<open>ModelConfiguration.Default\<close> reads the nullable
    \<open>username\<close> of the document with \<open>sub\<close>);
  \<^item> \<open>notNull()\<close> fails on null;
  \<^item> the type assertions fail on a value of another type and are skipped on null
    (\<open>model.js\<close> reads its nullable fields with \<open>string()\<close> and \<open>typeOf(Object)\<close>
    alone); \<open>typeOf(Object)\<close> lets an array through, as \<open>instanceof Object\<close> does;
  \<^item> \<open>optionalSub(name, defaultValue)\<close> wraps \<open>defaultValue\<close> when the key is absent and
    the value of the key when it is present. For a key that is present with null the
    specification has two sentences that cannot both hold: the primitive falls back on
    a field that is "absent or null", and \<open>From\<close> fails on \<open>host: null\<close>. The embedding
    follows the second, the only one that agrees with \<open>model.js\<close>: it chains
    \<open>notNull()\<close> after \<open>optionalSub\<close> for every field that must not be null, a call
    that would have no effect otherwise. So a key that is present with null is passed
    on as null;
  \<^item> \<open>inner()\<close> returns the wrapped value.
  The lookups see the own properties of the value. Every error of the package is caught
  by the builders, which keep its message only.
\<close>

datatype traverse_error = TraverseTypeError | TraverseKeyNotFoundError

datatype traverse = Traverse (inner: jsval)

definition WrapObject :: "jsval \<Rightarrow> traverse" where
  "WrapObject v = Traverse v"

definition notNull :: "traverse \<Rightarrow> traverse_error + traverse" where
  "notNull t = (case inner t of JNull \<Rightarrow> Inl TraverseTypeError | _ \<Rightarrow> Inr t)"

definition typeOf_Object :: "traverse \<Rightarrow> traverse_error + traverse" where
  "typeOf_Object t =
     (case inner t of
        JNull \<Rightarrow> Inr t
      | JObj kvs \<Rightarrow> Inr t
      | JArr xs \<Rightarrow> Inr t
      | _ \<Rightarrow> Inl TraverseTypeError)"

definition boolean :: "traverse \<Rightarrow> traverse_error + traverse" where
  "boolean t =
     (case inner t of JNull \<Rightarrow> Inr t | JBool b \<Rightarrow> Inr t | _ \<Rightarrow> Inl TraverseTypeError)"

definition integer :: "traverse \<Rightarrow> traverse_error + traverse" where
  "integer t =
     (case inner t of JNull \<Rightarrow> Inr t | JInt i \<Rightarrow> Inr t | _ \<Rightarrow> Inl TraverseTypeError)"

definition string' :: "traverse \<Rightarrow> traverse_error + traverse" where
  "string' t =
     (case inner t of JNull \<Rightarrow> Inr t | JStr s \<Rightarrow> Inr t | _ \<Rightarrow> Inl TraverseTypeError)"

definition sub :: "string \<Rightarrow> traverse \<Rightarrow> traverse_error + traverse" where
  "sub name t =
     (case members (inner t) of
        Some kvs \<Rightarrow>
          (case map_of kvs name of
             None \<Rightarrow> Inl TraverseKeyNotFoundError
           | Some v \<Rightarrow> Inr (Traverse v))
      | None \<Rightarrow> Inl TraverseTypeError)"

definition optionalSub :: "string \<Rightarrow> jsval \<Rightarrow> traverse \<Rightarrow> traverse_error + traverse" where
  "optionalSub name defaultValue t =
     (case members (inner t) of
        Some kvs \<Rightarrow>
          (case map_of kvs name of
             None \<Rightarrow> Inr (Traverse defaultValue)
           | Some v \<Rightarrow> Inr (Traverse v))
      | None \<Rightarrow> Inl TraverseTypeError)"

text \<open>
  A fluent chain \<open>t.f().g().h()\<close> applies the calls from left to right and stops at the
  first one that throws.
\<close>

fun fluent :: "traverse \<Rightarrow> (traverse \<Rightarrow> traverse_error + traverse) list
    \<Rightarrow> traverse_error + traverse" where
  "fluent t [] = Inr t"
| "fluent t (f # fs) = (case f t of Inl e \<Rightarrow> Inl e | Inr t' \<Rightarrow> fluent t' fs)"

text \<open>Sequencing of statements that may throw: the first error ends the block.\<close>

definition andThen :: "'e + 'a \<Rightarrow> ('a \<Rightarrow> 'e + 'b) \<Rightarrow> 'e + 'b" where
  "andThen r k = (case r of Inl e \<Rightarrow> Inl e | Inr x \<Rightarrow> k x)"

section \<open>Errors and the default document\<close>

text \<open>
  \<open>ReadDefaultRawConfiguration\<close> reads and parses \<open>model.default.json\<close>. The file is
  bundled with the package and is not part of the sources, so it is a parameter: the read
  fails, the parse fails, or the parse gives a value. A failure is a plain \<open>Error\<close>; the
  message of a \<open>ModelConfigurationError\<close> is either the caught message alone or the
  caught message inside a format text.
\<close>

datatype default_file = ReadFailure | ParseFailure | Parsed jsval

datatype message = Caught traverse_error | Formatted string traverse_error

datatype error = Error string | ModelConfigurationError message

definition ReadDefaultRawConfiguration :: "default_file \<Rightarrow> error + jsval" where
  "ReadDefaultRawConfiguration file =
     (case file of
        ReadFailure \<Rightarrow> Inl (Error ''Read model default configuration file error.'')
      | ParseFailure \<Rightarrow> Inl (Error ''Invalid default model configuration.'')
      | Parsed rst \<Rightarrow> Inr rst)"

text \<open>A \<open>try\<close> block whose \<open>catch\<close> rethrows a \<open>ModelConfigurationError\<close>.\<close>

definition catch_as :: "(traverse_error \<Rightarrow> message) \<Rightarrow> traverse_error + 'a \<Rightarrow> error + 'a" where
  "catch_as msg r =
     (case r of Inl e \<Rightarrow> Inl (ModelConfigurationError (msg e)) | Inr x \<Rightarrow> Inr x)"

section \<open>The configuration objects\<close>

record ModelPoolConfiguration =
  pool_max :: jsval
  pool_min :: jsval
  pool_idle :: jsval
  pool_acquire :: jsval
  pool_evict :: jsval

record ModelSyncConfiguration =
  sync_force :: jsval
  sync_alter :: jsval

record ModelTransactionConfiguration =
  transaction_type :: jsval
  transaction_isolationLevel :: jsval

record ModelRetryConfiguration =
  retry_max :: jsval

record ModelConfiguration =
  host :: jsval
  port :: jsval
  username :: jsval
  password :: jsval
  database :: jsval
  dialect :: jsval
  protocol :: jsval
  syncCfg :: ModelSyncConfiguration
  logging :: jsval
  omitNull :: jsval
  poolCfg :: ModelPoolConfiguration
  transactionCfg :: ModelTransactionConfiguration
  retryCfg :: ModelRetryConfiguration
  operatorsAliases :: jsval

definition ModelPoolConfiguration_toObject :: "ModelPoolConfiguration \<Rightarrow> jsval" where
  "ModelPoolConfiguration_toObject c =
     JObj [(''max'', pool_max c), (''min'', pool_min c), (''idle'', pool_idle c),
           (''acquire'', pool_acquire c), (''evict'', pool_evict c)]"

definition ModelSyncConfiguration_toObject :: "ModelSyncConfiguration \<Rightarrow> jsval" where
  "ModelSyncConfiguration_toObject c =
     JObj [(''force'', sync_force c), (''alter'', sync_alter c)]"

definition ModelTransactionConfiguration_toObject :: "ModelTransactionConfiguration \<Rightarrow> jsval" where
  "ModelTransactionConfiguration_toObject c =
     JObj [(''transactionType'', transaction_type c),
           (''isolationLevel'', transaction_isolationLevel c)]"

definition ModelRetryConfiguration_toObject :: "ModelRetryConfiguration \<Rightarrow> jsval" where
  "ModelRetryConfiguration_toObject c = JObj [(''max'', retry_max c)]"

definition ModelConfiguration_toObject :: "ModelConfiguration \<Rightarrow> jsval" where
  "ModelConfiguration_toObject c =
     JObj [(''host'', host c),
           (''port'', port c),
           (''username'', username c),
           (''password'', password c),
           (''database'', database c),
           (''dialect'', dialect c),
           (''protocol'', protocol c),
           (''sync'', ModelSyncConfiguration_toObject (syncCfg c)),
           (''logging'', logging c),
           (''omitNull'', omitNull c),
           (''pool'', ModelPoolConfiguration_toObject (poolCfg c)),
           (''transactionType'', transaction_type (transactionCfg c)),
           (''isolationLevel'', transaction_isolationLevel (transactionCfg c)),
           (''retry'', ModelRetryConfiguration_toObject (retryCfg c)),
           (''operatorsAliases'', operatorsAliases c)]"

section \<open>The nested builders\<close>

subsection \<open>Sync\<close>

definition ModelSyncConfiguration_Default_try :: "jsval \<Rightarrow> traverse_error + ModelSyncConfiguration" where
  "ModelSyncConfiguration_Default_try cfg =
     andThen (fluent (WrapObject cfg) [sub ''sync'', notNull, typeOf_Object]) (\<lambda>root.
     andThen (fluent root [sub ''force'', notNull, boolean]) (\<lambda>force.
     andThen (fluent root [sub ''alter'', notNull, boolean]) (\<lambda>alter.
     Inr \<lparr>sync_force = inner force, sync_alter = inner alter\<rparr>)))"

definition ModelSyncConfiguration_Default :: "default_file \<Rightarrow> error + ModelSyncConfiguration" where
  "ModelSyncConfiguration_Default file =
     andThen (ReadDefaultRawConfiguration file) (\<lambda>cfg.
     catch_as (Formatted ''Load default model sync configuration error.'')
       (ModelSyncConfiguration_Default_try cfg))"

definition ModelSyncConfiguration_From_try ::
    "ModelSyncConfiguration \<Rightarrow> jsval \<Rightarrow> traverse_error + ModelSyncConfiguration" where
  "ModelSyncConfiguration_From_try dcfg cfg =
     andThen (fluent (WrapObject cfg) [notNull, typeOf_Object]) (\<lambda>root.
     andThen (fluent root [optionalSub ''force'' (sync_force dcfg), notNull, boolean]) (\<lambda>force.
     andThen (fluent root [optionalSub ''alter'' (sync_alter dcfg), notNull, boolean]) (\<lambda>alter.
     Inr \<lparr>sync_force = inner force, sync_alter = inner alter\<rparr>)))"

definition ModelSyncConfiguration_From :: "default_file \<Rightarrow> jsval \<Rightarrow> error + ModelSyncConfiguration" where
  "ModelSyncConfiguration_From file cfg =
     andThen (ModelSyncConfiguration_Default file) (\<lambda>dcfg.
     catch_as (Formatted ''Load model sync configuration error.'')
       (ModelSyncConfiguration_From_try dcfg cfg))"

subsection \<open>Pool\<close>

definition ModelPoolConfiguration_Default_try :: "jsval \<Rightarrow> traverse_error + ModelPoolConfiguration" where
  "ModelPoolConfiguration_Default_try cfg =
     andThen (fluent (WrapObject cfg) [sub ''pool'', notNull, typeOf_Object]) (\<lambda>root.
     andThen (fluent root [sub ''max'', notNull, integer]) (\<lambda>max.
     andThen (fluent root [sub ''min'', notNull, integer]) (\<lambda>min.
     andThen (fluent root [sub ''idle'', notNull, integer]) (\<lambda>idle.
     andThen (fluent root [sub ''acquire'', notNull, integer]) (\<lambda>acquire.
     andThen (fluent root [sub ''evict'', notNull, integer]) (\<lambda>evict.
     Inr \<lparr>pool_max = inner max, pool_min = inner min, pool_idle = inner idle,
          pool_acquire = inner acquire, pool_evict = inner evict\<rparr>))))))"

definition ModelPoolConfiguration_Default :: "default_file \<Rightarrow> error + ModelPoolConfiguration" where
  "ModelPoolConfiguration_Default file =
     andThen (ReadDefaultRawConfiguration file) (\<lambda>cfg.
     catch_as (Formatted ''Load default model pool configuration error.'')
       (ModelPoolConfiguration_Default_try cfg))"

definition ModelPoolConfiguration_From_try ::
    "ModelPoolConfiguration \<Rightarrow> jsval \<Rightarrow> traverse_error + ModelPoolConfiguration" where
  "ModelPoolConfiguration_From_try dcfg cfg =
     andThen (fluent (WrapObject cfg) [notNull, typeOf_Object]) (\<lambda>root.
     andThen (fluent root [optionalSub ''max'' (pool_max dcfg), notNull, integer]) (\<lambda>max.
     andThen (fluent root [optionalSub ''min'' (pool_min dcfg), notNull, integer]) (\<lambda>min.
     andThen (fluent root [optionalSub ''idle'' (pool_idle dcfg), notNull, integer]) (\<lambda>idle.
     andThen (fluent root [optionalSub ''acquire'' (pool_acquire dcfg), notNull, integer]) (\<lambda>acquire.
     andThen (fluent root [optionalSub ''evict'' (pool_evict dcfg), notNull, integer]) (\<lambda>evict.
     Inr \<lparr>pool_max = inner max, pool_min = inner min, pool_idle = inner idle,
          pool_acquire = inner acquire, pool_evict = inner evict\<rparr>))))))"

definition ModelPoolConfiguration_From :: "default_file \<Rightarrow> jsval \<Rightarrow> error + ModelPoolConfiguration" where
  "ModelPoolConfiguration_From file cfg =
     andThen (ModelPoolConfiguration_Default file) (\<lambda>dcfg.
     catch_as (Formatted ''Load model pool configuration error.'')
       (ModelPoolConfiguration_From_try dcfg cfg))"

subsection \<open>Transaction\<close>

definition ModelTransactionConfiguration_Default_try ::
    "jsval \<Rightarrow> traverse_error + ModelTransactionConfiguration" where
  "ModelTransactionConfiguration_Default_try cfg =
     andThen (fluent (WrapObject cfg) [sub ''transaction'', notNull, typeOf_Object]) (\<lambda>root.
     andThen (fluent root [sub ''type'', notNull, string']) (\<lambda>type.
     andThen (fluent root [sub ''isolation-level'', notNull, string']) (\<lambda>isolationLevel.
     Inr \<lparr>transaction_type = inner type,
          transaction_isolationLevel = inner isolationLevel\<rparr>)))"

definition ModelTransactionConfiguration_Default ::
    "default_file \<Rightarrow> error + ModelTransactionConfiguration" where
  "ModelTransactionConfiguration_Default file =
     andThen (ReadDefaultRawConfiguration file) (\<lambda>cfg.
     catch_as (Formatted ''Load default model transaction configuration.'')
       (ModelTransactionConfiguration_Default_try cfg))"

definition ModelTransactionConfiguration_From_try ::
    "ModelTransactionConfiguration \<Rightarrow> jsval \<Rightarrow> traverse_error + ModelTransactionConfiguration" where
  "ModelTransactionConfiguration_From_try dcfg cfg =
     andThen (fluent (WrapObject cfg) [notNull, typeOf_Object]) (\<lambda>root.
     andThen (fluent root [optionalSub ''type'' (transaction_type dcfg), notNull, string']) (\<lambda>type.
     andThen (fluent root [optionalSub ''isolation-level'' (transaction_isolationLevel dcfg),
                           notNull, string']) (\<lambda>isolationLevel.
     Inr \<lparr>transaction_type = inner type,
          transaction_isolationLevel = inner isolationLevel\<rparr>)))"

definition ModelTransactionConfiguration_From ::
    "default_file \<Rightarrow> jsval \<Rightarrow> error + ModelTransactionConfiguration" where
  "ModelTransactionConfiguration_From file cfg =
     andThen (ModelTransactionConfiguration_Default file) (\<lambda>dcfg.
     catch_as (Formatted ''Load model transaction configuration.'')
       (ModelTransactionConfiguration_From_try dcfg cfg))"

subsection \<open>Retry\<close>

definition ModelRetryConfiguration_Default_try :: "jsval \<Rightarrow> traverse_error + ModelRetryConfiguration" where
  "ModelRetryConfiguration_Default_try cfg =
     andThen (fluent (WrapObject cfg) [sub ''retry'', notNull, typeOf_Object]) (\<lambda>root.
     andThen (fluent root [sub ''max'', notNull, integer]) (\<lambda>max.
     Inr \<lparr>retry_max = inner max\<rparr>))"

definition ModelRetryConfiguration_Default :: "default_file \<Rightarrow> error + ModelRetryConfiguration" where
  "ModelRetryConfiguration_Default file =
     andThen (ReadDefaultRawConfiguration file) (\<lambda>cfg.
     catch_as (Formatted ''Load model retry configuration error.'')
       (ModelRetryConfiguration_Default_try cfg))"

definition ModelRetryConfiguration_From_try ::
    "ModelRetryConfiguration \<Rightarrow> jsval \<Rightarrow> traverse_error + ModelRetryConfiguration" where
  "ModelRetryConfiguration_From_try dcfg cfg =
     andThen (fluent (WrapObject cfg) [notNull, typeOf_Object]) (\<lambda>root.
     andThen (fluent root [optionalSub ''max'' (retry_max dcfg), notNull, integer]) (\<lambda>max.
     Inr \<lparr>retry_max = inner max\<rparr>))"

definition ModelRetryConfiguration_From :: "default_file \<Rightarrow> jsval \<Rightarrow> error + ModelRetryConfiguration" where
  "ModelRetryConfiguration_From file cfg =
     andThen (ModelRetryConfiguration_Default file) (\<lambda>dcfg.
     catch_as (Formatted ''Load model retry configuration error.'')
       (ModelRetryConfiguration_From_try dcfg cfg))"

section \<open>The aggregate builder\<close>

text \<open>
  The local variables that the \<open>try\<close> block of \<open>ModelConfiguration.Default\<close> and of
  \<open>ModelConfiguration.From\<close> assigns; the four groups are still raw objects there.
\<close>

record model_locals =
  l_host :: jsval
  l_port :: jsval
  l_username :: jsval
  l_password :: jsval
  l_database :: jsval
  l_dialect :: jsval
  l_protocol :: jsval
  l_sync :: jsval
  l_logging :: jsval
  l_omitNull :: jsval
  l_pool :: jsval
  l_transaction :: jsval
  l_retry :: jsval
  l_operatorsAliases :: jsval

definition ModelConfiguration_Default_try :: "jsval \<Rightarrow> traverse_error + model_locals" where
  "ModelConfiguration_Default_try cfg =
     andThen (fluent (WrapObject cfg) [notNull, typeOf_Object]) (\<lambda>root.
     andThen (fluent root [sub ''host'', notNull, string']) (\<lambda>host.
     andThen (fluent root [sub ''port'', notNull, integer]) (\<lambda>port.
     andThen (fluent root [sub ''username'', string']) (\<lambda>username.
     andThen (fluent root [sub ''password'', string']) (\<lambda>password.
     andThen (fluent root [sub ''database'', string']) (\<lambda>database.
     andThen (fluent root [sub ''dialect'', notNull, string']) (\<lambda>dialect.
     andThen (fluent root [sub ''protocol'', notNull, string']) (\<lambda>protocol.
     andThen (fluent root [sub ''sync'', notNull, typeOf_Object]) (\<lambda>sync.
     andThen (fluent root [sub ''logging'', notNull, boolean]) (\<lambda>logging.
     andThen (fluent root [sub ''omit-null'', notNull, boolean]) (\<lambda>omitNull.
     andThen (fluent root [sub ''pool'', notNull, typeOf_Object]) (\<lambda>pool.
     andThen (fluent root [sub ''transaction'', notNull, typeOf_Object]) (\<lambda>transaction.
     andThen (fluent root [sub ''retry'', notNull, typeOf_Object]) (\<lambda>retry.
     andThen (fluent root [sub ''operators-aliases'', typeOf_Object]) (\<lambda>operatorsAliases.
     Inr \<lparr>l_host = inner host, l_port = inner port, l_username = inner username,
          l_password = inner password, l_database = inner database,
          l_dialect = inner dialect, l_protocol = inner protocol, l_sync = inner sync,
          l_logging = inner logging, l_omitNull = inner omitNull, l_pool = inner pool,
          l_transaction = inner transaction, l_retry = inner retry,
          l_operatorsAliases = inner operatorsAliases\<rparr>)))))))))))))))"

definition ModelConfiguration_Default :: "default_file \<Rightarrow> error + ModelConfiguration" where
  "ModelConfiguration_Default file =
     andThen (ReadDefaultRawConfiguration file) (\<lambda>cfg.
     andThen (catch_as Caught (ModelConfiguration_Default_try cfg)) (\<lambda>l.
     andThen (ModelSyncConfiguration_From file (l_sync l)) (\<lambda>syncCfg.
     andThen (ModelPoolConfiguration_From file (l_pool l)) (\<lambda>poolCfg.
     andThen (ModelTransactionConfiguration_From file (l_transaction l)) (\<lambda>transactionCfg.
     andThen (ModelRetryConfiguration_From file (l_retry l)) (\<lambda>retryCfg.
     Inr \<lparr>host = l_host l, port = l_port l, username = l_username l,
          password = l_password l, database = l_database l, dialect = l_dialect l,
          protocol = l_protocol l, syncCfg = syncCfg, logging = l_logging l,
          omitNull = l_omitNull l, poolCfg = poolCfg, transactionCfg = transactionCfg,
          retryCfg = retryCfg, operatorsAliases = l_operatorsAliases l\<rparr>))))))"

definition ModelConfiguration_From_try :: "ModelConfiguration \<Rightarrow> jsval \<Rightarrow> traverse_error + model_locals" where
  "ModelConfiguration_From_try dcfg cfg =
     andThen (fluent (WrapObject cfg) [notNull, typeOf_Object]) (\<lambda>root.
     andThen (fluent root [optionalSub ''host'' (host dcfg), notNull, string']) (\<lambda>host.
     andThen (fluent root [optionalSub ''port'' (port dcfg), notNull, integer]) (\<lambda>port.
     andThen (fluent root [optionalSub ''username'' (username dcfg), string']) (\<lambda>username.
     andThen (fluent root [optionalSub ''password'' (password dcfg), string']) (\<lambda>password.
     andThen (fluent root [optionalSub ''database'' (database dcfg), string']) (\<lambda>database.
     andThen (fluent root [optionalSub ''dialect'' (dialect dcfg), notNull, string']) (\<lambda>dialect.
     andThen (fluent root [optionalSub ''protocol'' (protocol dcfg), notNull, string']) (\<lambda>protocol.
     andThen (fluent root [optionalSub ''sync'' (JObj []), notNull, typeOf_Object]) (\<lambda>sync.
     andThen (fluent root [optionalSub ''logging'' (logging dcfg), notNull, boolean]) (\<lambda>logging.
     andThen (fluent root [optionalSub ''omit-null'' (omitNull dcfg), notNull, boolean]) (\<lambda>omitNull.
     andThen (fluent root [optionalSub ''pool'' (JObj []), notNull, typeOf_Object]) (\<lambda>pool.
     andThen (fluent root [optionalSub ''transaction'' (JObj []), notNull, typeOf_Object]) (\<lambda>transaction.
     andThen (fluent root [optionalSub ''retry'' (JObj []), notNull, typeOf_Object]) (\<lambda>retry.
     andThen (fluent root [optionalSub ''operators-aliases'' (operatorsAliases dcfg),
                           typeOf_Object]) (\<lambda>operatorsAliases.
     Inr \<lparr>l_host = inner host, l_port = inner port, l_username = inner username,
          l_password = inner password, l_database = inner database,
          l_dialect = inner dialect, l_protocol = inner protocol, l_sync = inner sync,
          l_logging = inner logging, l_omitNull = inner omitNull, l_pool = inner pool,
          l_transaction = inner transaction, l_retry = inner retry,
          l_operatorsAliases = inner operatorsAliases\<rparr>)))))))))))))))"

definition ModelConfiguration_From :: "default_file \<Rightarrow> jsval \<Rightarrow> error + ModelConfiguration" where
  "ModelConfiguration_From file cfg =
     andThen (ModelConfiguration_Default file) (\<lambda>dcfg.
     andThen (catch_as (Formatted ''Load model configuration error.'')
                (ModelConfiguration_From_try dcfg cfg)) (\<lambda>l.
     andThen (ModelSyncConfiguration_From file (l_sync l)) (\<lambda>syncCfg.
     andThen (ModelTransactionConfiguration_From file (l_transaction l)) (\<lambda>transactionCfg.
     andThen (ModelPoolConfiguration_From file (l_pool l)) (\<lambda>poolCfg.
     andThen (ModelRetryConfiguration_From file (l_retry l)) (\<lambda>retryCfg.
     Inr \<lparr>host = l_host l, port = l_port l, username = l_username l,
          password = l_password l, database = l_database l, dialect = l_dialect l,
          protocol = l_protocol l, syncCfg = syncCfg, logging = l_logging l,
          omitNull = l_omitNull l, poolCfg = poolCfg, transactionCfg = transactionCfg,
          retryCfg = retryCfg, operatorsAliases = l_operatorsAliases l\<rparr>))))))"

section \<open>The factory\<close>

text \<open>
  \<open>SequelizeFactory.create\<close> builds the configuration, constructs the client of the
  external package \<open>sequelize\<close> from the serialized configuration and, when asked,
  awaits the client's \<open>authenticate()\<close>. The client is outside the sources: what its
  constructor and its \<open>authenticate\<close> do (return, or throw a message) is a parameter.
  The calls made on the client are recorded in order, and the promise that \<open>create\<close>
  returns is its outcome: rejected (\<open>Inl\<close>) or resolved with the client (\<open>Inr\<close>).
\<close>

datatype client_call = NewSequelize jsval | AuthenticateCall

record sequelize_package =
  constructor_throws :: "jsval \<Rightarrow> string option"
  authenticate_throws :: "jsval \<Rightarrow> string option"

datatype rejection =
    SequelizeFactoryConfigurationError error
  | SequelizeFactoryAuthenticateError string
  | SequelizeError string

datatype sequelize_client = Sequelize jsval

definition create ::
    "sequelize_package \<Rightarrow> default_file \<Rightarrow> jsval \<Rightarrow> bool
      \<Rightarrow> (rejection + sequelize_client) \<times> client_call list" where
  "create pkg file cfg waitForAuthenticate =
     (case ModelConfiguration_From file cfg of
        Inl e \<Rightarrow> (Inl (SequelizeFactoryConfigurationError e), [])
      | Inr modelCfg \<Rightarrow>
          (let options = ModelConfiguration_toObject modelCfg in
           case constructor_throws pkg options of
             Some m \<Rightarrow> (Inl (SequelizeError m), [NewSequelize options])
           | None \<Rightarrow>
               if waitForAuthenticate then
                 (case authenticate_throws pkg options of
                    Some m \<Rightarrow> (Inl (SequelizeFactoryAuthenticateError m),
                               [NewSequelize options, AuthenticateCall])
                  | None \<Rightarrow> (Inr (Sequelize options),
                             [NewSequelize options, AuthenticateCall]))
               else (Inr (Sequelize options), [NewSequelize options])))"

section \<open>Notions used in the statements\<close>

text \<open>The calls of the package that test the wrapped value and return the same wrapper.\<close>

definition checks :: "(traverse \<Rightarrow> traverse_error + traverse) set" where
  "checks = {notNull, typeOf_Object, boolean, integer, string'}"

text \<open>The runtime types that the checks of the package tell apart.\<close>

definition isBoolean :: "jsval \<Rightarrow> bool" where
  "isBoolean v = (case v of JBool b \<Rightarrow> True | _ \<Rightarrow> False)"

definition isInteger :: "jsval \<Rightarrow> bool" where
  "isInteger v = (case v of JInt i \<Rightarrow> True | _ \<Rightarrow> False)"

definition isString :: "jsval \<Rightarrow> bool" where
  "isString v = (case v of JStr s \<Rightarrow> True | _ \<Rightarrow> False)"

definition isObject :: "jsval \<Rightarrow> bool" where
  "isObject v = (case v of JObj kvs \<Rightarrow> True | JArr xs \<Rightarrow> True | _ \<Rightarrow> False)"

definition isNull :: "jsval \<Rightarrow> bool" where
  "isNull v = (case v of JNull \<Rightarrow> True | _ \<Rightarrow> False)"

text \<open>The properties of an object, and none for a value that is not one.\<close>

definition properties :: "jsval \<Rightarrow> (string \<times> jsval) list" where
  "properties v = (case v of JObj kvs \<Rightarrow> kvs | _ \<Rightarrow> [])"

text \<open>
  The value that a raw object provides for a field, or else the fallback value; and the
  test that a raw object, where it provides a field, provides it with the given type.
\<close>

definition field_or_default :: "(string \<times> jsval) list \<Rightarrow> string \<Rightarrow> jsval \<Rightarrow> jsval" where
  "field_or_default kvs name d = (case map_of kvs name of None \<Rightarrow> d | Some v \<Rightarrow> v)"

definition field_is :: "(jsval \<Rightarrow> bool) \<Rightarrow> (string \<times> jsval) list \<Rightarrow> string \<Rightarrow> bool" where
  "field_is ty kvs name = (case map_of kvs name of None \<Rightarrow> True | Some v \<Rightarrow> ty v)"





text \<open>Whether an outcome is a thrown \<open>ModelConfigurationError\<close>.\<close>

definition throws_ModelConfigurationError :: "error + 'a \<Rightarrow> bool" where
  "throws_ModelConfigurationError r =
     (case r of Inl (ModelConfigurationError m) \<Rightarrow> True | _ \<Rightarrow> False)"

text \<open>
  A default document for the examples: the defaults that the README of the package
  lists. The README is silent on \<open>omit-null\<close> and \<open>operators-aliases\<close>, taken here as
  \<open>false\<close> and \<open>null\<close>.
\<close>

definition README_document :: jsval where
  "README_document =
     JObj [(''host'', JStr ''localhost''),
           (''port'', JInt 3306),
           (''username'', JNull),
           (''password'', JNull),
           (''database'', JNull),
           (''dialect'', JStr ''mysql''),
           (''protocol'', JStr ''tcp''),
           (''sync'', JObj [(''force'', JBool False), (''alter'', JBool False)]),
           (''logging'', JBool False),
           (''omit-null'', JBool False),
           (''pool'', JObj [(''max'', JInt 5), (''min'', JInt 0), (''idle'', JInt 10000),
                            (''acquire'', JInt 60000), (''evict'', JInt 1000)]),
           (''transaction'', JObj [(''type'', JStr ''DEFERRED''),
                                   (''isolation-level'', JStr ''READ_COMMITTED'')]),
           (''retry'', JObj [(''max'', JInt 4)]),
           (''operators-aliases'', JNull)]"

text \<open>The configuration that \<open>ModelConfiguration.Default\<close> builds from that document.\<close>

definition README_configuration :: ModelConfiguration where
  "README_configuration =
     \<lparr>host = JStr ''localhost'', port = JInt 3306, username = JNull, password = JNull,
      database = JNull, dialect = JStr ''mysql'', protocol = JStr ''tcp'',
      syncCfg = \<lparr>sync_force = JBool False, sync_alter = JBool False\<rparr>,
      logging = JBool False, omitNull = JBool False,
      poolCfg = \<lparr>pool_max = JInt 5, pool_min = JInt 0, pool_idle = JInt 10000,
                 pool_acquire = JInt 60000, pool_evict = JInt 1000\<rparr>,
      transactionCfg = \<lparr>transaction_type = JStr ''DEFERRED'',
                        transaction_isolationLevel = JStr ''READ_COMMITTED''\<rparr>,
      retryCfg = \<lparr>retry_max = JInt 4\<rparr>,
      operatorsAliases = JNull\<rparr>"

text \<open>A field that may be null, and the top-level fields of a valid raw configuration.\<close>

definition nullable :: "(jsval \<Rightarrow> bool) \<Rightarrow> jsval \<Rightarrow> bool" where
  "nullable ty v = (isNull v \<or> ty v)"

definition valid_model_raw :: "(string \<times> jsval) list \<Rightarrow> bool" where
  "valid_model_raw kvs =
     (field_is isString kvs ''host''
      \<and> field_is isInteger kvs ''port''
      \<and> field_is (nullable isString) kvs ''username''
      \<and> field_is (nullable isString) kvs ''password''
      \<and> field_is (nullable isString) kvs ''database''
      \<and> field_is isString kvs ''dialect''
      \<and> field_is isString kvs ''protocol''
      \<and> field_is isObject kvs ''sync''
      \<and> field_is isBoolean kvs ''logging''
      \<and> field_is isBoolean kvs ''omit-null''
      \<and> field_is isObject kvs ''pool''
      \<and> field_is isObject kvs ''transaction''
      \<and> field_is isObject kvs ''retry''
      \<and> field_is (nullable isObject) kvs ''operators-aliases'')"

text \<open>
  A document has a required field when it is an object with that key and the value is of
  the given type; the documents from which each \<open>Default\<close> succeeds are the valid ones.
\<close>

definition required :: "(jsval \<Rightarrow> bool) \<Rightarrow> jsval \<Rightarrow> string \<Rightarrow> bool" where
  "required ty obj name =
     (case members obj of
        Some kvs \<Rightarrow> (case map_of kvs name of None \<Rightarrow> False | Some v \<Rightarrow> ty v)
      | None \<Rightarrow> False)"

definition the_field :: "jsval \<Rightarrow> string \<Rightarrow> jsval" where
  "the_field obj name =
     (case members obj of
        Some kvs \<Rightarrow> (case map_of kvs name of None \<Rightarrow> JNull | Some v \<Rightarrow> v)
      | None \<Rightarrow> JNull)"

definition valid_sync_document :: "jsval \<Rightarrow> bool" where
  "valid_sync_document doc =
     (required isObject doc ''sync''
      \<and> required isBoolean (the_field doc ''sync'') ''force''
      \<and> required isBoolean (the_field doc ''sync'') ''alter'')"

definition valid_pool_document :: "jsval \<Rightarrow> bool" where
  "valid_pool_document doc =
     (required isObject doc ''pool''
      \<and> required isInteger (the_field doc ''pool'') ''max''
      \<and> required isInteger (the_field doc ''pool'') ''min''
      \<and> required isInteger (the_field doc ''pool'') ''idle''
      \<and> required isInteger (the_field doc ''pool'') ''acquire''
      \<and> required isInteger (the_field doc ''pool'') ''evict'')"

definition valid_transaction_document :: "jsval \<Rightarrow> bool" where
  "valid_transaction_document doc =
     (required isObject doc ''transaction''
      \<and> required isString (the_field doc ''transaction'') ''type''
      \<and> required isString (the_field doc ''transaction'') ''isolation-level'')"

definition valid_retry_document :: "jsval \<Rightarrow> bool" where
  "valid_retry_document doc =
     (required isObject doc ''retry''
      \<and> required isInteger (the_field doc ''retry'') ''max'')"

definition valid_document :: "jsval \<Rightarrow> bool" where
  "valid_document doc =
     (required isString doc ''host''
      \<and> required isInteger doc ''port''
      \<and> required (nullable isString) doc ''username''
      \<and> required (nullable isString) doc ''password''
      \<and> required (nullable isString) doc ''database''
      \<and> required isString doc ''dialect''
      \<and> required isString doc ''protocol''
      \<and> required isBoolean doc ''logging''
      \<and> required isBoolean doc ''omit-null''
      \<and> required (nullable isObject) doc ''operators-aliases''
      \<and> valid_sync_document doc
      \<and> valid_pool_document doc
      \<and> valid_transaction_document doc
      \<and> valid_retry_document doc)"

text \<open>
  \<open>ModelConfiguration.Default\<close> as the specification words it, on the document itself
  and without the package. \<open>requireField(obj, name)\<close> fails when \<open>obj\<close> lacks \<open>name\<close>,
  or when the value is null and the field is not nullable; \<open>assertType(value, kind)\<close>
  fails on a value of another type and is skipped on null; a member field is read with
  \<open>requireField\<close> followed by \<open>assertType\<close>. Phase one reads every member field of the
  document and wraps a failure in a \<open>ModelConfigurationError\<close>; phase two makes the
  configuration, the four groups coming from the \<open>Default()\<close> of the nested builders.
  A failure carries the error that \<open>model.js\<close> would catch in the same place.
\<close>

definition requireField :: "bool \<Rightarrow> jsval \<Rightarrow> string \<Rightarrow> traverse_error + jsval" where
  "requireField may_be_null obj name =
     (case members obj of
        None \<Rightarrow> Inl TraverseTypeError
      | Some kvs \<Rightarrow>
          (case map_of kvs name of
             None \<Rightarrow> Inl TraverseKeyNotFoundError
           | Some v \<Rightarrow>
               if isNull v \<and> \<not> may_be_null then Inl TraverseTypeError else Inr v))"

definition assertType :: "(jsval \<Rightarrow> bool) \<Rightarrow> jsval \<Rightarrow> traverse_error + jsval" where
  "assertType kind v = (if isNull v \<or> kind v then Inr v else Inl TraverseTypeError)"

definition member_field ::
    "bool \<Rightarrow> (jsval \<Rightarrow> bool) \<Rightarrow> jsval \<Rightarrow> string \<Rightarrow> traverse_error + jsval" where
  "member_field may_be_null kind obj name =
     andThen (requireField may_be_null obj name) (assertType kind)"

definition ModelConfiguration_Default_fields_spec :: "jsval \<Rightarrow> traverse_error + model_locals" where
  "ModelConfiguration_Default_fields_spec doc =
     andThen (member_field False isString doc ''host'') (\<lambda>host.
     andThen (member_field False isInteger doc ''port'') (\<lambda>port.
     andThen (member_field True isString doc ''username'') (\<lambda>username.
     andThen (member_field True isString doc ''password'') (\<lambda>password.
     andThen (member_field True isString doc ''database'') (\<lambda>database.
     andThen (member_field False isString doc ''dialect'') (\<lambda>dialect.
     andThen (member_field False isString doc ''protocol'') (\<lambda>protocol.
     andThen (member_field False isObject doc ''sync'') (\<lambda>sync.
     andThen (member_field False isBoolean doc ''logging'') (\<lambda>logging.
     andThen (member_field False isBoolean doc ''omit-null'') (\<lambda>omitNull.
     andThen (member_field False isObject doc ''pool'') (\<lambda>pool.
     andThen (member_field False isObject doc ''transaction'') (\<lambda>transaction.
     andThen (member_field False isObject doc ''retry'') (\<lambda>retry.
     andThen (member_field True isObject doc ''operators-aliases'') (\<lambda>operatorsAliases.
     Inr \<lparr>l_host = host, l_port = port, l_username = username,
          l_password = password, l_database = database,
          l_dialect = dialect, l_protocol = protocol, l_sync = sync,
          l_logging = logging, l_omitNull = omitNull, l_pool = pool,
          l_transaction = transaction, l_retry = retry,
          l_operatorsAliases = operatorsAliases\<rparr>))))))))))))))"

definition ModelConfiguration_Default_spec :: "default_file \<Rightarrow> error + ModelConfiguration" where
  "ModelConfiguration_Default_spec file =
     andThen (ReadDefaultRawConfiguration file) (\<lambda>doc.
     andThen (catch_as Caught (ModelConfiguration_Default_fields_spec doc)) (\<lambda>l.
     andThen (ModelSyncConfiguration_Default file) (\<lambda>syncCfg.
     andThen (ModelPoolConfiguration_Default file) (\<lambda>poolCfg.
     andThen (ModelTransactionConfiguration_Default file) (\<lambda>transactionCfg.
     andThen (ModelRetryConfiguration_Default file) (\<lambda>retryCfg.
     Inr \<lparr>host = l_host l, port = l_port l, username = l_username l,
          password = l_password l, database = l_database l, dialect = l_dialect l,
          protocol = l_protocol l, syncCfg = syncCfg, logging = l_logging l,
          omitNull = l_omitNull l, poolCfg = poolCfg, transactionCfg = transactionCfg,
          retryCfg = retryCfg, operatorsAliases = l_operatorsAliases l\<rparr>))))))"



section \<open>Sequencing and the calls of the package\<close>

lemma members_simps [simp]:
  "members (JObj kvs) = Some kvs"
  "members (JArr xs) = Some (array_properties xs)"
  "members JNull = None"
  "members (JBool b) = None"
  "members (JInt i) = None"
  "members (JNonInt n) = None"
  "members (JStr s) = None"
  by (simp_all add: members_def)

lemma andThen_simps [simp]: "andThen (Inl e) k = Inl e" "andThen (Inr x) k = k x"
  by (simp_all add: andThen_def)

lemma andThen_eq_Inr: "andThen r k = Inr y \<longleftrightarrow> (\<exists>x. r = Inr x \<and> k x = Inr y)"
  by (cases r) simp_all

lemma catch_as_simps [simp]:
  "catch_as m (Inl e) = Inl (ModelConfigurationError (m e))" "catch_as m (Inr x) = Inr x"
  by (simp_all add: catch_as_def)

lemma catch_as_eq_Inr: "catch_as m r = Inr y \<longleftrightarrow> r = Inr y"
  by (cases r) simp_all

lemma check_keeps: "f \<in> checks \<Longrightarrow> f t = Inr r \<Longrightarrow> r = t"
  by (auto simp: checks_def notNull_def typeOf_Object_def boolean_def integer_def string'_def
      split: jsval.splits)

lemma fluent_checks_keeps: "set cs \<subseteq> checks \<Longrightarrow> fluent t cs = Inr r \<Longrightarrow> r = t"
proof (induction cs arbitrary: t)
  case Nil
  then show ?case by simp
next
  case (Cons f cs)
  then show ?case by (auto split: sum.splits dest: check_keeps)
qed

lemma optionalSub_of_sub: "sub k t = Inr r \<Longrightarrow> optionalSub k d t = Inr r"
  by (auto simp: sub_def optionalSub_def split: jsval.splits option.splits)

lemma fluent_optionalSub_of_sub:
  "fluent t (sub k # cs) = Inr r \<Longrightarrow> fluent t (optionalSub k d # cs) = Inr r"
  by (auto split: sum.splits dest: optionalSub_of_sub [where d = d])

text \<open>A value that went through a chain of checks goes through them again.\<close>

lemma fluent_sub_checked:
  assumes "fluent t (sub k # cs) = Inr r" and "set cs \<subseteq> checks"
  shows "fluent r cs = Inr r"
proof -
  from assms(1) obtain x where x: "sub k t = Inr x" "fluent x cs = Inr r"
    by (auto split: sum.splits)
  with assms(2) have "r = x" by (auto dest: fluent_checks_keeps)
  with x show ?thesis by simp
qed

lemma fluent_default_on_empty:
  assumes "fluent t (sub k # cs) = Inr r" and "set cs \<subseteq> checks"
  shows "fluent (Traverse (JObj [])) (optionalSub k' (inner r) # cs) = Inr r"
  using fluent_sub_checked [OF assms] by (simp add: optionalSub_def)

lemma root_empty:
  "fluent (WrapObject (JObj [])) [notNull, typeOf_Object] = Inr (Traverse (JObj []))"
  by (simp add: WrapObject_def notNull_def typeOf_Object_def)

section \<open>The nested builders on the empty object\<close>

lemma Sync_From_empty:
  "ModelSyncConfiguration_From file (JObj []) = ModelSyncConfiguration_Default file"
proof (cases "ModelSyncConfiguration_Default file")
  case (Inl e)
  then show ?thesis by (simp add: ModelSyncConfiguration_From_def)
next
  case (Inr d)
  then have "ModelSyncConfiguration_From_try d (JObj []) = Inr d"
    by (auto simp: ModelSyncConfiguration_Default_def ModelSyncConfiguration_Default_try_def
        ModelSyncConfiguration_From_try_def andThen_eq_Inr catch_as_eq_Inr root_empty
        fluent_default_on_empty checks_def simp del: fluent.simps)
  with Inr show ?thesis by (simp add: ModelSyncConfiguration_From_def)
qed

lemma Pool_From_empty:
  "ModelPoolConfiguration_From file (JObj []) = ModelPoolConfiguration_Default file"
proof (cases "ModelPoolConfiguration_Default file")
  case (Inl e)
  then show ?thesis by (simp add: ModelPoolConfiguration_From_def)
next
  case (Inr d)
  then have "ModelPoolConfiguration_From_try d (JObj []) = Inr d"
    by (auto simp: ModelPoolConfiguration_Default_def ModelPoolConfiguration_Default_try_def
        ModelPoolConfiguration_From_try_def andThen_eq_Inr catch_as_eq_Inr root_empty
        fluent_default_on_empty checks_def simp del: fluent.simps)
  with Inr show ?thesis by (simp add: ModelPoolConfiguration_From_def)
qed

lemma Transaction_From_empty:
  "ModelTransactionConfiguration_From file (JObj []) = ModelTransactionConfiguration_Default file"
proof (cases "ModelTransactionConfiguration_Default file")
  case (Inl e)
  then show ?thesis by (simp add: ModelTransactionConfiguration_From_def)
next
  case (Inr d)
  then have "ModelTransactionConfiguration_From_try d (JObj []) = Inr d"
    by (auto simp: ModelTransactionConfiguration_Default_def
        ModelTransactionConfiguration_Default_try_def
        ModelTransactionConfiguration_From_try_def andThen_eq_Inr catch_as_eq_Inr root_empty
        fluent_default_on_empty checks_def simp del: fluent.simps)
  with Inr show ?thesis by (simp add: ModelTransactionConfiguration_From_def)
qed

lemma Retry_From_empty:
  "ModelRetryConfiguration_From file (JObj []) = ModelRetryConfiguration_Default file"
proof (cases "ModelRetryConfiguration_Default file")
  case (Inl e)
  then show ?thesis by (simp add: ModelRetryConfiguration_From_def)
next
  case (Inr d)
  then have "ModelRetryConfiguration_From_try d (JObj []) = Inr d"
    by (auto simp: ModelRetryConfiguration_Default_def ModelRetryConfiguration_Default_try_def
        ModelRetryConfiguration_From_try_def andThen_eq_Inr catch_as_eq_Inr root_empty
        fluent_default_on_empty checks_def simp del: fluent.simps)
  with Inr show ?thesis by (simp add: ModelRetryConfiguration_From_def)
qed

section \<open>The nested builders on a group of the default document\<close>

text \<open>
  \<open>ModelConfiguration.Default\<close> hands each group of the document to the nested
  \<open>From\<close>. That call reads the same document for its fallback values, finds every key
  of the group present, and so returns what the nested \<open>Default\<close> returns.
\<close>

lemma group_root:
  assumes "fluent (WrapObject cfg) [sub k, notNull, typeOf_Object] = Inr s"
  shows "fluent (WrapObject (inner s)) [notNull, typeOf_Object] = Inr s"
  using fluent_sub_checked [OF assms] by (simp add: checks_def WrapObject_def)

lemma Sync_From_group:
  assumes rd: "ReadDefaultRawConfiguration file = Inr cfg"
    and grp: "fluent (WrapObject cfg) [sub ''sync'', notNull, typeOf_Object] = Inr s"
  shows "ModelSyncConfiguration_From file (inner s) = ModelSyncConfiguration_Default file"
proof (cases "ModelSyncConfiguration_Default file")
  case (Inl e)
  then show ?thesis by (simp add: ModelSyncConfiguration_From_def)
next
  case (Inr d)
  note root = group_root [OF grp]
  from Inr rd grp have "ModelSyncConfiguration_From_try d (inner s) = Inr d"
    unfolding ModelSyncConfiguration_Default_def ModelSyncConfiguration_Default_try_def
      ModelSyncConfiguration_From_try_def root
    by (auto simp: andThen_eq_Inr catch_as_eq_Inr fluent_optionalSub_of_sub
        simp del: fluent.simps)
  with Inr show ?thesis by (simp add: ModelSyncConfiguration_From_def)
qed

lemma Pool_From_group:
  assumes rd: "ReadDefaultRawConfiguration file = Inr cfg"
    and grp: "fluent (WrapObject cfg) [sub ''pool'', notNull, typeOf_Object] = Inr s"
  shows "ModelPoolConfiguration_From file (inner s) = ModelPoolConfiguration_Default file"
proof (cases "ModelPoolConfiguration_Default file")
  case (Inl e)
  then show ?thesis by (simp add: ModelPoolConfiguration_From_def)
next
  case (Inr d)
  note root = group_root [OF grp]
  from Inr rd grp have "ModelPoolConfiguration_From_try d (inner s) = Inr d"
    unfolding ModelPoolConfiguration_Default_def ModelPoolConfiguration_Default_try_def
      ModelPoolConfiguration_From_try_def root
    by (auto simp: andThen_eq_Inr catch_as_eq_Inr fluent_optionalSub_of_sub
        simp del: fluent.simps)
  with Inr show ?thesis by (simp add: ModelPoolConfiguration_From_def)
qed

lemma Transaction_From_group:
  assumes rd: "ReadDefaultRawConfiguration file = Inr cfg"
    and grp: "fluent (WrapObject cfg) [sub ''transaction'', notNull, typeOf_Object] = Inr s"
  shows "ModelTransactionConfiguration_From file (inner s)
    = ModelTransactionConfiguration_Default file"
proof (cases "ModelTransactionConfiguration_Default file")
  case (Inl e)
  then show ?thesis by (simp add: ModelTransactionConfiguration_From_def)
next
  case (Inr d)
  note root = group_root [OF grp]
  from Inr rd grp have "ModelTransactionConfiguration_From_try d (inner s) = Inr d"
    unfolding ModelTransactionConfiguration_Default_def
      ModelTransactionConfiguration_Default_try_def
      ModelTransactionConfiguration_From_try_def root
    by (auto simp: andThen_eq_Inr catch_as_eq_Inr fluent_optionalSub_of_sub
        simp del: fluent.simps)
  with Inr show ?thesis by (simp add: ModelTransactionConfiguration_From_def)
qed

lemma Retry_From_group:
  assumes rd: "ReadDefaultRawConfiguration file = Inr cfg"
    and grp: "fluent (WrapObject cfg) [sub ''retry'', notNull, typeOf_Object] = Inr s"
  shows "ModelRetryConfiguration_From file (inner s) = ModelRetryConfiguration_Default file"
proof (cases "ModelRetryConfiguration_Default file")
  case (Inl e)
  then show ?thesis by (simp add: ModelRetryConfiguration_From_def)
next
  case (Inr d)
  note root = group_root [OF grp]
  from Inr rd grp have "ModelRetryConfiguration_From_try d (inner s) = Inr d"
    unfolding ModelRetryConfiguration_Default_def ModelRetryConfiguration_Default_try_def
      ModelRetryConfiguration_From_try_def root
    by (auto simp: andThen_eq_Inr catch_as_eq_Inr fluent_optionalSub_of_sub
        simp del: fluent.simps)
  with Inr show ?thesis by (simp add: ModelRetryConfiguration_From_def)
qed

lemma Default_try_groups:
  assumes "ModelConfiguration_Default_try cfg = Inr l"
  shows "fluent (WrapObject cfg) [sub ''sync'', notNull, typeOf_Object]
           = Inr (Traverse (l_sync l))"
    and "fluent (WrapObject cfg) [sub ''pool'', notNull, typeOf_Object]
           = Inr (Traverse (l_pool l))"
    and "fluent (WrapObject cfg) [sub ''transaction'', notNull, typeOf_Object]
           = Inr (Traverse (l_transaction l))"
    and "fluent (WrapObject cfg) [sub ''retry'', notNull, typeOf_Object]
           = Inr (Traverse (l_retry l))"
proof -
  from assms obtain root where
    root: "fluent (WrapObject cfg) [notNull, typeOf_Object] = Inr root"
    by (auto simp: ModelConfiguration_Default_try_def andThen_eq_Inr simp del: fluent.simps)
  then have eq: "root = WrapObject cfg"
    by (rule fluent_checks_keeps [rotated]) (simp add: checks_def)
  from assms show
    "fluent (WrapObject cfg) [sub ''sync'', notNull, typeOf_Object]
       = Inr (Traverse (l_sync l))"
    "fluent (WrapObject cfg) [sub ''pool'', notNull, typeOf_Object]
       = Inr (Traverse (l_pool l))"
    "fluent (WrapObject cfg) [sub ''transaction'', notNull, typeOf_Object]
       = Inr (Traverse (l_transaction l))"
    "fluent (WrapObject cfg) [sub ''retry'', notNull, typeOf_Object]
       = Inr (Traverse (l_retry l))"
    unfolding ModelConfiguration_Default_try_def root andThen_simps eq
    by (auto simp: andThen_eq_Inr simp del: fluent.simps)
qed

lemma Default_groups_From:
  assumes rd: "ReadDefaultRawConfiguration file = Inr cfg"
    and l: "ModelConfiguration_Default_try cfg = Inr l"
  shows "ModelSyncConfiguration_From file (l_sync l) = ModelSyncConfiguration_Default file"
    and "ModelPoolConfiguration_From file (l_pool l) = ModelPoolConfiguration_Default file"
    and "ModelTransactionConfiguration_From file (l_transaction l)
          = ModelTransactionConfiguration_Default file"
    and "ModelRetryConfiguration_From file (l_retry l) = ModelRetryConfiguration_Default file"
  using Sync_From_group [OF rd Default_try_groups(1) [OF l]]
    Pool_From_group [OF rd Default_try_groups(2) [OF l]]
    Transaction_From_group [OF rd Default_try_groups(3) [OF l]]
    Retry_From_group [OF rd Default_try_groups(4) [OF l]]
  by simp_all

section \<open>What a default aggregate satisfies\<close>

lemma andThen_InrE:
  assumes "andThen r k = Inr y"
  obtains x where "r = Inr x" and "k x = Inr y"
  using assms by (auto simp: andThen_eq_Inr)

lemma field_checked:
  assumes "fluent t (sub k # cs) = Inr r" and "set cs \<subseteq> checks"
  shows "fluent (Traverse (inner r)) cs = Inr (Traverse (inner r))"
  using fluent_sub_checked [OF assms] by simp

lemma Default_try_fields:
  assumes "ModelConfiguration_Default_try cfg = Inr l"
  shows "fluent (Traverse (l_host l)) [notNull, string'] = Inr (Traverse (l_host l))"
    and "fluent (Traverse (l_port l)) [notNull, integer] = Inr (Traverse (l_port l))"
    and "fluent (Traverse (l_username l)) [string'] = Inr (Traverse (l_username l))"
    and "fluent (Traverse (l_password l)) [string'] = Inr (Traverse (l_password l))"
    and "fluent (Traverse (l_database l)) [string'] = Inr (Traverse (l_database l))"
    and "fluent (Traverse (l_dialect l)) [notNull, string'] = Inr (Traverse (l_dialect l))"
    and "fluent (Traverse (l_protocol l)) [notNull, string'] = Inr (Traverse (l_protocol l))"
    and "fluent (Traverse (l_logging l)) [notNull, boolean] = Inr (Traverse (l_logging l))"
    and "fluent (Traverse (l_omitNull l)) [notNull, boolean] = Inr (Traverse (l_omitNull l))"
    and "fluent (Traverse (l_operatorsAliases l)) [typeOf_Object]
          = Inr (Traverse (l_operatorsAliases l))"
proof -
  from assms obtain root host port username password database dialect protocol sync logging
      omitNull pool transaction retry operatorsAliases where
    f: "fluent root [sub ''host'', notNull, string'] = Inr host"
      "fluent root [sub ''port'', notNull, integer] = Inr port"
      "fluent root [sub ''username'', string'] = Inr username"
      "fluent root [sub ''password'', string'] = Inr password"
      "fluent root [sub ''database'', string'] = Inr database"
      "fluent root [sub ''dialect'', notNull, string'] = Inr dialect"
      "fluent root [sub ''protocol'', notNull, string'] = Inr protocol"
      "fluent root [sub ''logging'', notNull, boolean] = Inr logging"
      "fluent root [sub ''omit-null'', notNull, boolean] = Inr omitNull"
      "fluent root [sub ''operators-aliases'', typeOf_Object] = Inr operatorsAliases"
    and l: "l = \<lparr>l_host = inner host, l_port = inner port, l_username = inner username,
          l_password = inner password, l_database = inner database,
          l_dialect = inner dialect, l_protocol = inner protocol, l_sync = inner sync,
          l_logging = inner logging, l_omitNull = inner omitNull, l_pool = inner pool,
          l_transaction = inner transaction, l_retry = inner retry,
          l_operatorsAliases = inner operatorsAliases\<rparr>"
    unfolding ModelConfiguration_Default_try_def
    by (elim andThen_InrE) (rule that [OF _ _ _ _ _ _ _ _ _ _ sym], assumption+, simp)
  show "fluent (Traverse (l_host l)) [notNull, string'] = Inr (Traverse (l_host l))"
    using field_checked [OF f(1)] by (simp add: l checks_def)
  show "fluent (Traverse (l_port l)) [notNull, integer] = Inr (Traverse (l_port l))"
    using field_checked [OF f(2)] by (simp add: l checks_def)
  show "fluent (Traverse (l_username l)) [string'] = Inr (Traverse (l_username l))"
    using field_checked [OF f(3)] by (simp add: l checks_def)
  show "fluent (Traverse (l_password l)) [string'] = Inr (Traverse (l_password l))"
    using field_checked [OF f(4)] by (simp add: l checks_def)
  show "fluent (Traverse (l_database l)) [string'] = Inr (Traverse (l_database l))"
    using field_checked [OF f(5)] by (simp add: l checks_def)
  show "fluent (Traverse (l_dialect l)) [notNull, string'] = Inr (Traverse (l_dialect l))"
    using field_checked [OF f(6)] by (simp add: l checks_def)
  show "fluent (Traverse (l_protocol l)) [notNull, string'] = Inr (Traverse (l_protocol l))"
    using field_checked [OF f(7)] by (simp add: l checks_def)
  show "fluent (Traverse (l_logging l)) [notNull, boolean] = Inr (Traverse (l_logging l))"
    using field_checked [OF f(8)] by (simp add: l checks_def)
  show "fluent (Traverse (l_omitNull l)) [notNull, boolean] = Inr (Traverse (l_omitNull l))"
    using field_checked [OF f(9)] by (simp add: l checks_def)
  show "fluent (Traverse (l_operatorsAliases l)) [typeOf_Object]
          = Inr (Traverse (l_operatorsAliases l))"
    using field_checked [OF f(10)] by (simp add: l checks_def)
qed

lemma fluent_optionalSub_empty:
  "fluent (Traverse (JObj [])) (optionalSub k dv # cs) = fluent (Traverse dv) cs"
  by (simp add: optionalSub_def)

lemma group_checks_empty:
  "fluent (Traverse (JObj [])) [notNull, typeOf_Object] = Inr (Traverse (JObj []))"
  by (simp add: notNull_def typeOf_Object_def)

lemma Default_InrE:
  assumes "ModelConfiguration_Default file = Inr d"
  obtains cfg l where "ReadDefaultRawConfiguration file = Inr cfg"
    and "ModelConfiguration_Default_try cfg = Inr l"
    and "ModelSyncConfiguration_Default file = Inr (syncCfg d)"
    and "ModelPoolConfiguration_Default file = Inr (poolCfg d)"
    and "ModelTransactionConfiguration_Default file = Inr (transactionCfg d)"
    and "ModelRetryConfiguration_Default file = Inr (retryCfg d)"
    and "host d = l_host l" and "port d = l_port l" and "username d = l_username l"
    and "password d = l_password l" and "database d = l_database l"
    and "dialect d = l_dialect l" and "protocol d = l_protocol l"
    and "logging d = l_logging l" and "omitNull d = l_omitNull l"
    and "operatorsAliases d = l_operatorsAliases l"
proof -
  from assms obtain cfg l s p t r where rd: "ReadDefaultRawConfiguration file = Inr cfg"
    and l: "ModelConfiguration_Default_try cfg = Inr l"
    and n: "ModelSyncConfiguration_From file (l_sync l) = Inr s"
      "ModelPoolConfiguration_From file (l_pool l) = Inr p"
      "ModelTransactionConfiguration_From file (l_transaction l) = Inr t"
      "ModelRetryConfiguration_From file (l_retry l) = Inr r"
    and d: "\<lparr>host = l_host l, port = l_port l, username = l_username l,
          password = l_password l, database = l_database l, dialect = l_dialect l,
          protocol = l_protocol l, syncCfg = s, logging = l_logging l,
          omitNull = l_omitNull l, poolCfg = p, transactionCfg = t,
          retryCfg = r, operatorsAliases = l_operatorsAliases l\<rparr> = d"
    unfolding ModelConfiguration_Default_def
    by (elim andThen_InrE) (auto simp: catch_as_eq_Inr)
  note g = Default_groups_From [OF rd l]
  from d have sel: "syncCfg d = s" "poolCfg d = p" "transactionCfg d = t" "retryCfg d = r"
    "host d = l_host l" "port d = l_port l" "username d = l_username l"
    "password d = l_password l" "database d = l_database l"
    "dialect d = l_dialect l" "protocol d = l_protocol l"
    "logging d = l_logging l" "omitNull d = l_omitNull l"
    "operatorsAliases d = l_operatorsAliases l"
    by auto
  show thesis
    using n unfolding g by (intro that [OF rd l]) (simp_all add: sel)
qed

section \<open>The aggregate builder on the empty object\<close>

lemma Model_From_empty:
  "ModelConfiguration_From file (JObj []) = ModelConfiguration_Default file"
proof (cases "ModelConfiguration_Default file")
  case (Inl e)
  then show ?thesis by (simp add: ModelConfiguration_From_def)
next
  case (Inr d)
  from Inr obtain cfg l where l: "ModelConfiguration_Default_try cfg = Inr l"
    and n: "ModelSyncConfiguration_Default file = Inr (syncCfg d)"
      "ModelPoolConfiguration_Default file = Inr (poolCfg d)"
      "ModelTransactionConfiguration_Default file = Inr (transactionCfg d)"
      "ModelRetryConfiguration_Default file = Inr (retryCfg d)"
    and sel: "host d = l_host l" "port d = l_port l" "username d = l_username l"
      "password d = l_password l" "database d = l_database l"
      "dialect d = l_dialect l" "protocol d = l_protocol l"
      "logging d = l_logging l" "omitNull d = l_omitNull l"
      "operatorsAliases d = l_operatorsAliases l"
    by (rule Default_InrE)
  have tr: "ModelConfiguration_From_try d (JObj []) =
    Inr \<lparr>l_host = host d, l_port = port d, l_username = username d,
         l_password = password d, l_database = database d, l_dialect = dialect d,
         l_protocol = protocol d, l_sync = JObj [], l_logging = logging d,
         l_omitNull = omitNull d, l_pool = JObj [], l_transaction = JObj [],
         l_retry = JObj [], l_operatorsAliases = operatorsAliases d\<rparr>"
    unfolding ModelConfiguration_From_try_def root_empty andThen_simps
      fluent_optionalSub_empty group_checks_empty sel Default_try_fields [OF l]
      traverse.sel
    by (rule refl)
  show ?thesis
    unfolding ModelConfiguration_From_def Inr andThen_simps tr catch_as_simps
      model_locals.simps Sync_From_empty Pool_From_empty Transaction_From_empty
      Retry_From_empty n
    by simp
qed

text \<open>
  Claim C1. At every level (sync, pool, transaction, retry and the aggregate), \<open>From({})\<close>
  is \<open>Default()\<close>: the same configuration when the default document validates, and
  the same error when it does not.
\<close>

theorem From_empty_is_Default:
  "ModelSyncConfiguration_From file (JObj []) = ModelSyncConfiguration_Default file
   \<and> ModelPoolConfiguration_From file (JObj []) = ModelPoolConfiguration_Default file
   \<and> ModelTransactionConfiguration_From file (JObj [])
       = ModelTransactionConfiguration_Default file
   \<and> ModelRetryConfiguration_From file (JObj []) = ModelRetryConfiguration_Default file
   \<and> ModelConfiguration_From file (JObj []) = ModelConfiguration_Default file"
  by (simp only: Sync_From_empty Pool_From_empty Transaction_From_empty Retry_From_empty
      Model_From_empty simp_thms)

section \<open>The builders on an array\<close>













section \<open>Closed forms of the field chains\<close>

lemma fluent_optionalSub_obj:
  "fluent (Traverse (JObj kvs)) (optionalSub k d # cs)
     = fluent (Traverse (field_or_default kvs k d)) cs"
  by (simp add: optionalSub_def field_or_default_def split: option.splits)

lemma checked_boolean:
  "fluent t [notNull, boolean] = (if isBoolean (inner t) then Inr t else Inl TraverseTypeError)"
  by (cases t, cases "inner t")
    (simp_all add: notNull_def boolean_def integer_def string'_def typeOf_Object_def
      isBoolean_def isInteger_def isString_def isObject_def isNull_def)

lemma checked_integer:
  "fluent t [notNull, integer] = (if isInteger (inner t) then Inr t else Inl TraverseTypeError)"
  by (cases t, cases "inner t")
    (simp_all add: notNull_def boolean_def integer_def string'_def typeOf_Object_def
      isBoolean_def isInteger_def isString_def isObject_def isNull_def)

lemma checked_string:
  "fluent t [notNull, string'] = (if isString (inner t) then Inr t else Inl TraverseTypeError)"
  by (cases t, cases "inner t")
    (simp_all add: notNull_def boolean_def integer_def string'_def typeOf_Object_def
      isBoolean_def isInteger_def isString_def isObject_def isNull_def)

lemma checked_object:
  "fluent t [notNull, typeOf_Object] = (if isObject (inner t) then Inr t else Inl TraverseTypeError)"
  by (cases t, cases "inner t")
    (simp_all add: notNull_def boolean_def integer_def string'_def typeOf_Object_def
      isBoolean_def isInteger_def isString_def isObject_def isNull_def)

lemma checked_nullable_string:
  "fluent t [string'] = (if isNull (inner t) \<or> isString (inner t) then Inr t else Inl TraverseTypeError)"
  by (cases t, cases "inner t")
    (simp_all add: notNull_def boolean_def integer_def string'_def typeOf_Object_def
      isBoolean_def isInteger_def isString_def isObject_def isNull_def)

lemma checked_nullable_object:
  "fluent t [typeOf_Object] = (if isNull (inner t) \<or> isObject (inner t) then Inr t else Inl TraverseTypeError)"
  by (cases t, cases "inner t")
    (simp_all add: notNull_def boolean_def integer_def string'_def typeOf_Object_def
      isBoolean_def isInteger_def isString_def isObject_def isNull_def)

lemmas checked = checked_boolean checked_integer checked_string checked_object
  checked_nullable_string checked_nullable_object

lemma field_or_default_typed:
  "ty d \<Longrightarrow> ty (field_or_default kvs k d) = field_is ty kvs k"
  by (simp add: field_is_def field_or_default_def split: option.splits)

section \<open>The default aggregate against its specification\<close>

lemma andThen_assoc: "andThen (andThen r f) g = andThen r (\<lambda>x. andThen (f x) g)"
  by (cases r) simp_all

lemma member_field_chain:
  assumes "\<And>v. fluent v cs = (if P (inner v) then Inr v else Inl TraverseTypeError)"
    and "\<And>v. P v \<longleftrightarrow> (may_be_null \<or> \<not> isNull v) \<and> (isNull v \<or> kind v)"
  shows "fluent t (sub k # cs)
    = andThen (member_field may_be_null kind (inner t) k) (\<lambda>v. Inr (Traverse v))"
  by (cases "members (inner t)")
    (auto simp: sub_def member_field_def requireField_def assertType_def assms
      split: option.splits)

lemma null_is_untyped:
  "isNull v \<Longrightarrow> \<not> isString v" "isNull v \<Longrightarrow> \<not> isInteger v"
  "isNull v \<Longrightarrow> \<not> isBoolean v" "isNull v \<Longrightarrow> \<not> isObject v"
  by (cases v; simp add: isNull_def isString_def isInteger_def isBoolean_def isObject_def)+

lemma chain_string:
  "fluent t [sub k, notNull, string']
    = andThen (member_field False isString (inner t) k) (\<lambda>v. Inr (Traverse v))"
  by (rule member_field_chain [OF checked_string]) (auto dest: null_is_untyped)

lemma chain_integer:
  "fluent t [sub k, notNull, integer]
    = andThen (member_field False isInteger (inner t) k) (\<lambda>v. Inr (Traverse v))"
  by (rule member_field_chain [OF checked_integer]) (auto dest: null_is_untyped)

lemma chain_boolean:
  "fluent t [sub k, notNull, boolean]
    = andThen (member_field False isBoolean (inner t) k) (\<lambda>v. Inr (Traverse v))"
  by (rule member_field_chain [OF checked_boolean]) (auto dest: null_is_untyped)

lemma chain_object:
  "fluent t [sub k, notNull, typeOf_Object]
    = andThen (member_field False isObject (inner t) k) (\<lambda>v. Inr (Traverse v))"
  by (rule member_field_chain [OF checked_object]) (auto dest: null_is_untyped)

lemma chain_nullable_string:
  "fluent t [sub k, string']
    = andThen (member_field True isString (inner t) k) (\<lambda>v. Inr (Traverse v))"
  by (rule member_field_chain [OF checked_nullable_string]) auto

lemma chain_nullable_object:
  "fluent t [sub k, typeOf_Object]
    = andThen (member_field True isObject (inner t) k) (\<lambda>v. Inr (Traverse v))"
  by (rule member_field_chain [OF checked_nullable_object]) auto

lemmas chains = chain_string chain_integer chain_boolean chain_object
  chain_nullable_string chain_nullable_object

lemma member_field_not_object:
  "\<not> isObject obj \<Longrightarrow> member_field may_be_null kind obj name = Inl TraverseTypeError"
  by (cases obj) (simp_all add: member_field_def requireField_def isObject_def)

lemma Default_try_eq_fields_spec:
  "ModelConfiguration_Default_try cfg = ModelConfiguration_Default_fields_spec cfg"
proof (cases "isObject cfg")
  case True
  then have root: "fluent (WrapObject cfg) [notNull, typeOf_Object] = Inr (Traverse cfg)"
    by (simp add: checked_object WrapObject_def del: fluent.simps)
  show ?thesis
    unfolding ModelConfiguration_Default_try_def ModelConfiguration_Default_fields_spec_def
      root andThen_simps chains andThen_assoc traverse.sel
    by (rule refl)
next
  case False
  then have root: "fluent (WrapObject cfg) [notNull, typeOf_Object] = Inl TraverseTypeError"
    by (simp add: checked_object WrapObject_def del: fluent.simps)
  show ?thesis
    unfolding ModelConfiguration_Default_try_def ModelConfiguration_Default_fields_spec_def
      root andThen_simps member_field_not_object [OF False]
    by (rule refl)
qed

text \<open>
  Claim C3. \<open>ModelConfiguration.Default\<close> follows the two-phase pattern of the nested
  builders at the top level: it reads every member field of the default document with
  \<open>requireField\<close> and \<open>assertType\<close> (null being allowed for \<open>username\<close>, \<open>password\<close>,
  \<open>database\<close> and \<open>operators-aliases\<close> alone), wraps a failure in a
  \<open>ModelConfigurationError\<close>, and then builds the sync, pool, transaction and retry
  configurations with the \<open>Default()\<close> of the nested builders. The source reads the
  fields through the fluent chains of the package and builds the groups with the nested
  \<open>From\<close> on the groups of the document; for every default file the outcome, the
  configuration or the error, is the same.
\<close>

theorem ModelConfiguration_Default_refines_spec:
  "ModelConfiguration_Default file = ModelConfiguration_Default_spec file"
proof (cases "ReadDefaultRawConfiguration file")
  case (Inl e)
  then show ?thesis
    by (simp add: ModelConfiguration_Default_def ModelConfiguration_Default_spec_def)
next
  case rd: (Inr cfg)
  show ?thesis
  proof (cases "ModelConfiguration_Default_try cfg")
    case (Inl te)
    with rd show ?thesis
      by (simp add: ModelConfiguration_Default_def ModelConfiguration_Default_spec_def
          Default_try_eq_fields_spec [symmetric])
  next
    case (Inr l)
    with rd show ?thesis
      by (simp add: ModelConfiguration_Default_def ModelConfiguration_Default_spec_def
          Default_try_eq_fields_spec [symmetric] Default_groups_From [OF rd Inr])
  qed
qed

text \<open>
  Claim C3 on the defaults of the README, on a document whose \<open>host\<close> is null, on one
  that lacks \<open>port\<close>, and on a default file that does not parse.
\<close>

theorem ModelConfiguration_Default_refines_spec_witness:
  "ModelConfiguration_Default_spec (Parsed README_document) = Inr README_configuration
   \<and> ModelConfiguration_Default_spec (Parsed (JObj [(''host'', JNull)]))
      = Inl (ModelConfigurationError (Caught TraverseTypeError))
   \<and> ModelConfiguration_Default_spec (Parsed (JObj [(''host'', JStr ''localhost'')]))
      = Inl (ModelConfigurationError (Caught TraverseKeyNotFoundError))
   \<and> ModelConfiguration_Default_spec ParseFailure
      = Inl (Error ''Invalid default model configuration.'')"
proof -
  have "ModelConfiguration_Default (Parsed README_document) = Inr README_configuration"
    "ModelConfiguration_Default (Parsed (JObj [(''host'', JNull)]))
      = Inl (ModelConfigurationError (Caught TraverseTypeError))"
    "ModelConfiguration_Default (Parsed (JObj [(''host'', JStr ''localhost'')]))
      = Inl (ModelConfigurationError (Caught TraverseKeyNotFoundError))"
    "ModelConfiguration_Default ParseFailure
      = Inl (Error ''Invalid default model configuration.'')"
    by code_simp+
  then show ?thesis
    by (simp only: ModelConfiguration_Default_refines_spec simp_thms)
qed

section \<open>The nested builders on an object\<close>





















section \<open>The aggregate builder on an object\<close>

lemma Model_From_try_obj:
  "ModelConfiguration_From_try d (JObj kvs) =
     (if isString (field_or_default kvs ''host'' (host d))
         \<and> isInteger (field_or_default kvs ''port'' (port d))
         \<and> nullable isString (field_or_default kvs ''username'' (username d))
         \<and> nullable isString (field_or_default kvs ''password'' (password d))
         \<and> nullable isString (field_or_default kvs ''database'' (database d))
         \<and> isString (field_or_default kvs ''dialect'' (dialect d))
         \<and> isString (field_or_default kvs ''protocol'' (protocol d))
         \<and> isObject (field_or_default kvs ''sync'' (JObj []))
         \<and> isBoolean (field_or_default kvs ''logging'' (logging d))
         \<and> isBoolean (field_or_default kvs ''omit-null'' (omitNull d))
         \<and> isObject (field_or_default kvs ''pool'' (JObj []))
         \<and> isObject (field_or_default kvs ''transaction'' (JObj []))
         \<and> isObject (field_or_default kvs ''retry'' (JObj []))
         \<and> nullable isObject (field_or_default kvs ''operators-aliases'' (operatorsAliases d))
      then Inr \<lparr>l_host = field_or_default kvs ''host'' (host d),
                l_port = field_or_default kvs ''port'' (port d),
                l_username = field_or_default kvs ''username'' (username d),
                l_password = field_or_default kvs ''password'' (password d),
                l_database = field_or_default kvs ''database'' (database d),
                l_dialect = field_or_default kvs ''dialect'' (dialect d),
                l_protocol = field_or_default kvs ''protocol'' (protocol d),
                l_sync = field_or_default kvs ''sync'' (JObj []),
                l_logging = field_or_default kvs ''logging'' (logging d),
                l_omitNull = field_or_default kvs ''omit-null'' (omitNull d),
                l_pool = field_or_default kvs ''pool'' (JObj []),
                l_transaction = field_or_default kvs ''transaction'' (JObj []),
                l_retry = field_or_default kvs ''retry'' (JObj []),
                l_operatorsAliases =
                  field_or_default kvs ''operators-aliases'' (operatorsAliases d)\<rparr>
      else Inl TraverseTypeError)"
  by (simp add: ModelConfiguration_From_try_def WrapObject_def isObject_def nullable_def
      fluent_optionalSub_obj checked del: fluent.simps)

section \<open>The aggregate builder on an object, with a validated default\<close>

lemma Model_Default_typed:
  assumes "ModelConfiguration_Default file = Inr d"
  shows "isString (host d)" "isInteger (port d)" "nullable isString (username d)"
    "nullable isString (password d)" "nullable isString (database d)"
    "isString (dialect d)" "isString (protocol d)" "isBoolean (logging d)"
    "isBoolean (omitNull d)" "nullable isObject (operatorsAliases d)"
proof -
  from assms obtain cfg l where l: "ModelConfiguration_Default_try cfg = Inr l"
    and sel: "host d = l_host l" "port d = l_port l" "username d = l_username l"
      "password d = l_password l" "database d = l_database l"
      "dialect d = l_dialect l" "protocol d = l_protocol l"
      "logging d = l_logging l" "omitNull d = l_omitNull l"
      "operatorsAliases d = l_operatorsAliases l"
    by (rule Default_InrE)
  show "isString (host d)" "isInteger (port d)" "nullable isString (username d)"
    "nullable isString (password d)" "nullable isString (database d)"
    "isString (dialect d)" "isString (protocol d)" "isBoolean (logging d)"
    "isBoolean (omitNull d)" "nullable isObject (operatorsAliases d)"
    using Default_try_fields [OF l]
    by (simp_all add: sel checked nullable_def split: if_splits del: fluent.simps)
qed

lemma isObject_empty: "isObject (JObj [])"
  by (simp add: isObject_def)

lemma Model_From_obj:
  assumes "ModelConfiguration_Default file = Inr d"
  shows "ModelConfiguration_From file (JObj kvs) =
     (if valid_model_raw kvs
      then
        andThen (ModelSyncConfiguration_From file
                   (field_or_default kvs ''sync'' (JObj []))) (\<lambda>syncCfg.
        andThen (ModelTransactionConfiguration_From file
                   (field_or_default kvs ''transaction'' (JObj []))) (\<lambda>transactionCfg.
        andThen (ModelPoolConfiguration_From file
                   (field_or_default kvs ''pool'' (JObj []))) (\<lambda>poolCfg.
        andThen (ModelRetryConfiguration_From file
                   (field_or_default kvs ''retry'' (JObj []))) (\<lambda>retryCfg.
        Inr \<lparr>host = field_or_default kvs ''host'' (host d),
             port = field_or_default kvs ''port'' (port d),
             username = field_or_default kvs ''username'' (username d),
             password = field_or_default kvs ''password'' (password d),
             database = field_or_default kvs ''database'' (database d),
             dialect = field_or_default kvs ''dialect'' (dialect d),
             protocol = field_or_default kvs ''protocol'' (protocol d),
             syncCfg = syncCfg,
             logging = field_or_default kvs ''logging'' (logging d),
             omitNull = field_or_default kvs ''omit-null'' (omitNull d),
             poolCfg = poolCfg,
             transactionCfg = transactionCfg,
             retryCfg = retryCfg,
             operatorsAliases =
               field_or_default kvs ''operators-aliases'' (operatorsAliases d)\<rparr>))))
      else Inl (ModelConfigurationError
                  (Formatted ''Load model configuration error.'' TraverseTypeError)))"
  using Model_Default_typed [OF assms]
  by (simp add: ModelConfiguration_From_def assms Model_From_try_obj valid_model_raw_def
      field_or_default_typed isObject_empty)

lemma field_is_Cons:
  "field_is ty ((k', v) # kvs) k = (if k = k' then ty v else field_is ty kvs k)"
  by (simp add: field_is_def)

lemma field_or_default_Cons:
  "field_or_default ((k', v) # kvs) k d = (if k = k' then v else field_or_default kvs k d)"
  by (simp add: field_or_default_def)

lemma From_InrD:
  "ModelConfiguration_From file cfg = Inr c \<Longrightarrow> \<exists>d. ModelConfiguration_Default file = Inr d"
  by (auto simp: ModelConfiguration_From_def andThen_eq_Inr)

lemma nullable_null: "nullable ty JNull"
  by (simp add: nullable_def isNull_def)

lemma not_isString_null: "\<not> isString JNull"
  by (simp add: isString_def)

lemma set_host_null:
  assumes "ModelConfiguration_Default file = Inr d"
  shows "ModelConfiguration_From file (JObj ((''host'', JNull) # kvs))
    = Inl (ModelConfigurationError
             (Formatted ''Load model configuration error.'' TraverseTypeError))"
  unfolding Model_From_obj [OF assms]
  by (simp add: valid_model_raw_def field_is_Cons not_isString_null)

section \<open>Documents from which the defaults are built\<close>

lemma required_chain:
  assumes "\<And>v. fluent v cs = (if P (inner v) then Inr v else Inl TraverseTypeError)"
  shows "fluent t (sub k # cs) = Inr r
    \<longleftrightarrow> required P (inner t) k \<and> r = Traverse (the_field (inner t) k)"
  by (cases t, cases "inner t")
    (auto simp: sub_def required_def the_field_def assms split: option.splits)

lemmas required_boolean = required_chain [OF checked_boolean]
  and required_integer = required_chain [OF checked_integer]
  and required_string = required_chain [OF checked_string]
  and required_object = required_chain [OF checked_object]
  and required_nullable_string = required_chain [OF checked_nullable_string, folded nullable_def]
  and required_nullable_object = required_chain [OF checked_nullable_object, folded nullable_def]

lemma Read_Parsed [simp]: "ReadDefaultRawConfiguration (Parsed doc) = Inr doc"
  by (simp add: ReadDefaultRawConfiguration_def)

lemma Pool_Default_Parsed:
  "ModelPoolConfiguration_Default (Parsed doc) = Inr d \<longleftrightarrow>
     valid_pool_document doc \<and>
     d = \<lparr>pool_max = the_field (the_field doc ''pool'') ''max'',
          pool_min = the_field (the_field doc ''pool'') ''min'',
          pool_idle = the_field (the_field doc ''pool'') ''idle'',
          pool_acquire = the_field (the_field doc ''pool'') ''acquire'',
          pool_evict = the_field (the_field doc ''pool'') ''evict''\<rparr>"
  by (auto simp: ModelPoolConfiguration_Default_def ModelPoolConfiguration_Default_try_def
      WrapObject_def andThen_eq_Inr catch_as_eq_Inr required_object required_integer
      valid_pool_document_def simp del: fluent.simps)

lemma Sync_Default_Parsed:
  "ModelSyncConfiguration_Default (Parsed doc) = Inr d \<longleftrightarrow>
     valid_sync_document doc \<and>
     d = \<lparr>sync_force = the_field (the_field doc ''sync'') ''force'',
          sync_alter = the_field (the_field doc ''sync'') ''alter''\<rparr>"
  by (auto simp: ModelSyncConfiguration_Default_def ModelSyncConfiguration_Default_try_def
      WrapObject_def andThen_eq_Inr catch_as_eq_Inr required_object required_boolean
      valid_sync_document_def simp del: fluent.simps)

lemma Transaction_Default_Parsed:
  "ModelTransactionConfiguration_Default (Parsed doc) = Inr d \<longleftrightarrow>
     valid_transaction_document doc \<and>
     d = \<lparr>transaction_type = the_field (the_field doc ''transaction'') ''type'',
          transaction_isolationLevel =
            the_field (the_field doc ''transaction'') ''isolation-level''\<rparr>"
  by (auto simp: ModelTransactionConfiguration_Default_def
      ModelTransactionConfiguration_Default_try_def
      WrapObject_def andThen_eq_Inr catch_as_eq_Inr required_object required_string
      valid_transaction_document_def simp del: fluent.simps)

lemma Retry_Default_Parsed:
  "ModelRetryConfiguration_Default (Parsed doc) = Inr d \<longleftrightarrow>
     valid_retry_document doc \<and>
     d = \<lparr>retry_max = the_field (the_field doc ''retry'') ''max''\<rparr>"
  by (auto simp: ModelRetryConfiguration_Default_def ModelRetryConfiguration_Default_try_def
      WrapObject_def andThen_eq_Inr catch_as_eq_Inr required_object required_integer
      valid_retry_document_def simp del: fluent.simps)

lemma Model_Default_try_Parsed:
  "ModelConfiguration_Default_try doc = Inr l \<longleftrightarrow>
     required isString doc ''host''
     \<and> required isInteger doc ''port''
     \<and> required (nullable isString) doc ''username''
     \<and> required (nullable isString) doc ''password''
     \<and> required (nullable isString) doc ''database''
     \<and> required isString doc ''dialect''
     \<and> required isString doc ''protocol''
     \<and> required isObject doc ''sync''
     \<and> required isBoolean doc ''logging''
     \<and> required isBoolean doc ''omit-null''
     \<and> required isObject doc ''pool''
     \<and> required isObject doc ''transaction''
     \<and> required isObject doc ''retry''
     \<and> required (nullable isObject) doc ''operators-aliases''
     \<and> l = \<lparr>l_host = the_field doc ''host'', l_port = the_field doc ''port'',
            l_username = the_field doc ''username'', l_password = the_field doc ''password'',
            l_database = the_field doc ''database'', l_dialect = the_field doc ''dialect'',
            l_protocol = the_field doc ''protocol'', l_sync = the_field doc ''sync'',
            l_logging = the_field doc ''logging'', l_omitNull = the_field doc ''omit-null'',
            l_pool = the_field doc ''pool'', l_transaction = the_field doc ''transaction'',
            l_retry = the_field doc ''retry'',
            l_operatorsAliases = the_field doc ''operators-aliases''\<rparr>"
proof -
  have root: "fluent (WrapObject doc) [notNull, typeOf_Object] = Inr r
      \<longleftrightarrow> isObject doc \<and> r = Traverse doc" for r
    by (auto simp: checked_object WrapObject_def simp del: fluent.simps)
  have obj: "required P doc k \<Longrightarrow> isObject doc" for P k
    by (cases doc) (simp_all add: required_def isObject_def)
  show ?thesis
    unfolding ModelConfiguration_Default_try_def andThen_eq_Inr root
    by (auto simp: required_object required_integer required_string required_boolean
        required_nullable_string required_nullable_object obj simp del: fluent.simps)
qed

lemma valid_document_of_Default:
  assumes "ModelConfiguration_Default (Parsed doc) = Inr d"
  shows "valid_document doc"
proof -
  from assms obtain cfg l where rd: "ReadDefaultRawConfiguration (Parsed doc) = Inr cfg"
    and l: "ModelConfiguration_Default_try cfg = Inr l"
    and n: "ModelSyncConfiguration_Default (Parsed doc) = Inr (syncCfg d)"
      "ModelPoolConfiguration_Default (Parsed doc) = Inr (poolCfg d)"
      "ModelTransactionConfiguration_Default (Parsed doc) = Inr (transactionCfg d)"
      "ModelRetryConfiguration_Default (Parsed doc) = Inr (retryCfg d)"
    by (rule Default_InrE)
  from rd have "cfg = doc" by simp
  with l have "ModelConfiguration_Default_try doc = Inr l" by simp
  with n show ?thesis
    unfolding valid_document_def Model_Default_try_Parsed Sync_Default_Parsed
      Pool_Default_Parsed Transaction_Default_Parsed Retry_Default_Parsed
    by simp
qed

lemma Default_of_valid_document:
  assumes "valid_document doc"
  shows "\<exists>d. ModelConfiguration_Default (Parsed doc) = Inr d"
proof -
  from assms obtain l where l: "ModelConfiguration_Default_try doc = Inr l"
    unfolding valid_document_def Model_Default_try_Parsed
      valid_sync_document_def valid_pool_document_def valid_transaction_document_def
      valid_retry_document_def
    by simp
  have rd: "ReadDefaultRawConfiguration (Parsed doc) = Inr doc"
    by simp
  from assms obtain s p t r where n: "ModelSyncConfiguration_Default (Parsed doc) = Inr s"
    "ModelPoolConfiguration_Default (Parsed doc) = Inr p"
    "ModelTransactionConfiguration_Default (Parsed doc) = Inr t"
    "ModelRetryConfiguration_Default (Parsed doc) = Inr r"
    unfolding valid_document_def Sync_Default_Parsed Pool_Default_Parsed
      Transaction_Default_Parsed Retry_Default_Parsed
    by simp
  show ?thesis
    by (simp add: ModelConfiguration_Default_def l Default_groups_From [OF rd l] n)
qed

lemma is_error_simps [simp]:
  "throws_ModelConfigurationError (Inl (ModelConfigurationError m))"
  "\<not> throws_ModelConfigurationError (Inl (Error s))"
  "\<not> throws_ModelConfigurationError (Inr x)"
  by (simp_all add: throws_ModelConfigurationError_def)

lemma catch_as_throws:
  "catch_as m r = Inl e \<Longrightarrow> throws_ModelConfigurationError (Inl e :: error + 'b)"
  by (cases r) auto

lemma nested_Default_throws:
  "ModelSyncConfiguration_Default (Parsed doc) = Inl e
     \<Longrightarrow> throws_ModelConfigurationError (Inl e :: error + 'b)"
  "ModelPoolConfiguration_Default (Parsed doc) = Inl e
     \<Longrightarrow> throws_ModelConfigurationError (Inl e :: error + 'b)"
  "ModelTransactionConfiguration_Default (Parsed doc) = Inl e
     \<Longrightarrow> throws_ModelConfigurationError (Inl e :: error + 'b)"
  "ModelRetryConfiguration_Default (Parsed doc) = Inl e
     \<Longrightarrow> throws_ModelConfigurationError (Inl e :: error + 'b)"
  by (auto simp: ModelSyncConfiguration_Default_def ModelPoolConfiguration_Default_def
      ModelTransactionConfiguration_Default_def ModelRetryConfiguration_Default_def
      dest: catch_as_throws)

lemma andThen_eq_Inl:
  "andThen r k = Inl e \<longleftrightarrow> r = Inl e \<or> (\<exists>x. r = Inr x \<and> k x = Inl e)"
  by (cases r) simp_all

lemma nested_From_throws:
  "ModelSyncConfiguration_From (Parsed doc) cfg = Inl e
     \<Longrightarrow> throws_ModelConfigurationError (Inl e :: error + 'b)"
  "ModelPoolConfiguration_From (Parsed doc) cfg = Inl e
     \<Longrightarrow> throws_ModelConfigurationError (Inl e :: error + 'b)"
  "ModelTransactionConfiguration_From (Parsed doc) cfg = Inl e
     \<Longrightarrow> throws_ModelConfigurationError (Inl e :: error + 'b)"
  "ModelRetryConfiguration_From (Parsed doc) cfg = Inl e
     \<Longrightarrow> throws_ModelConfigurationError (Inl e :: error + 'b)"
  by (auto simp: ModelSyncConfiguration_From_def ModelPoolConfiguration_From_def
      ModelTransactionConfiguration_From_def ModelRetryConfiguration_From_def
      andThen_eq_Inl dest: catch_as_throws nested_Default_throws)

lemma Model_Default_throws:
  "ModelConfiguration_Default (Parsed doc) = Inl e
     \<Longrightarrow> throws_ModelConfigurationError (Inl e :: error + 'b)"
  by (auto simp: ModelConfiguration_Default_def andThen_eq_Inl
      dest: catch_as_throws nested_From_throws)

lemma Model_From_throws:
  "ModelConfiguration_From (Parsed doc) cfg = Inl e
     \<Longrightarrow> throws_ModelConfigurationError (Inl e :: error + 'b)"
  by (auto simp: ModelConfiguration_From_def andThen_eq_Inl
      dest: catch_as_throws nested_From_throws Model_Default_throws)

section \<open>Round trip of the nested builders\<close>

lemma README_Default:
  "ModelConfiguration_Default (Parsed README_document) = Inr README_configuration"
  by code_simp



section \<open>Nullable fields and key names\<close>

lemma set_nullable_null:
  assumes "ModelConfiguration_From file (JObj kvs) = Inr c"
  shows "ModelConfiguration_From file (JObj ((''username'', JNull) # kvs))
      = Inr (c\<lparr>username := JNull\<rparr>)"
    and "ModelConfiguration_From file (JObj ((''password'', JNull) # kvs))
      = Inr (c\<lparr>password := JNull\<rparr>)"
    and "ModelConfiguration_From file (JObj ((''database'', JNull) # kvs))
      = Inr (c\<lparr>database := JNull\<rparr>)"
    and "ModelConfiguration_From file (JObj ((''operators-aliases'', JNull) # kvs))
      = Inr (c\<lparr>operatorsAliases := JNull\<rparr>)"
proof -
  from assms obtain d where d: "ModelConfiguration_Default file = Inr d"
    by (auto dest: From_InrD)
  from assms show "ModelConfiguration_From file (JObj ((''username'', JNull) # kvs))
      = Inr (c\<lparr>username := JNull\<rparr>)"
    unfolding Model_From_obj [OF d]
    by (auto simp: field_is_Cons field_or_default_Cons valid_model_raw_def nullable_null
        andThen_eq_Inr split: if_splits)
  from assms show "ModelConfiguration_From file (JObj ((''password'', JNull) # kvs))
      = Inr (c\<lparr>password := JNull\<rparr>)"
    unfolding Model_From_obj [OF d]
    by (auto simp: field_is_Cons field_or_default_Cons valid_model_raw_def nullable_null
        andThen_eq_Inr split: if_splits)
  from assms show "ModelConfiguration_From file (JObj ((''database'', JNull) # kvs))
      = Inr (c\<lparr>database := JNull\<rparr>)"
    unfolding Model_From_obj [OF d]
    by (auto simp: field_is_Cons field_or_default_Cons valid_model_raw_def nullable_null
        andThen_eq_Inr split: if_splits)
  from assms show "ModelConfiguration_From file (JObj ((''operators-aliases'', JNull) # kvs))
      = Inr (c\<lparr>operatorsAliases := JNull\<rparr>)"
    unfolding Model_From_obj [OF d]
    by (auto simp: field_is_Cons field_or_default_Cons valid_model_raw_def nullable_null
        andThen_eq_Inr split: if_splits)
qed

text \<open>
  Claim C6. Setting \<open>username\<close>, \<open>password\<close>, \<open>database\<close> or \<open>operators-aliases\<close> to
  null in a raw configuration that \<open>ModelConfiguration.From\<close> accepts gives a raw
  configuration that it accepts as well, and the field of the result is null. Setting
  \<open>host\<close> to null makes it fail with a \<open>ModelConfigurationError\<close>, whenever the default
  document validates.
\<close>

theorem null_username_accepted_null_host_rejected:
  "(ModelConfiguration_From file (JObj kvs) = Inr c \<longrightarrow>
      ModelConfiguration_From file (JObj ((''username'', JNull) # kvs))
        = Inr (c\<lparr>username := JNull\<rparr>)
      \<and> ModelConfiguration_From file (JObj ((''password'', JNull) # kvs))
        = Inr (c\<lparr>password := JNull\<rparr>)
      \<and> ModelConfiguration_From file (JObj ((''database'', JNull) # kvs))
        = Inr (c\<lparr>database := JNull\<rparr>)
      \<and> ModelConfiguration_From file (JObj ((''operators-aliases'', JNull) # kvs))
        = Inr (c\<lparr>operatorsAliases := JNull\<rparr>))
   \<and> (ModelConfiguration_Default file = Inr d \<longrightarrow>
      ModelConfiguration_From file (JObj ((''host'', JNull) # kvs'))
        = Inl (ModelConfigurationError
                 (Formatted ''Load model configuration error.'' TraverseTypeError)))"
  by (simp add: set_nullable_null set_host_null)

text \<open>
  Claim C6 on the defaults of the README: \<open>username: null\<close> over \<open>username: "root"\<close>,
  and \<open>host: null\<close>.
\<close>

theorem null_username_accepted_null_host_rejected_witness:
  "ModelConfiguration_From (Parsed README_document) (JObj [(''username'', JStr ''root'')])
      = Inr (README_configuration\<lparr>username := JStr ''root''\<rparr>)
   \<and> ModelConfiguration_From (Parsed README_document)
        (JObj [(''username'', JNull), (''username'', JStr ''root'')])
      = Inr (README_configuration\<lparr>username := JNull\<rparr>)
   \<and> ModelConfiguration_Default (Parsed README_document) = Inr README_configuration
   \<and> ModelConfiguration_From (Parsed README_document) (JObj [(''host'', JNull)])
      = Inl (ModelConfigurationError
               (Formatted ''Load model configuration error.'' TraverseTypeError))"
proof -
  have c: "ModelConfiguration_From (Parsed README_document)
      (JObj [(''username'', JStr ''root'')])
      = Inr (README_configuration\<lparr>username := JStr ''root''\<rparr>)"
    by code_simp
  have d: "ModelConfiguration_Default (Parsed README_document) = Inr README_configuration"
    by code_simp
  show ?thesis
    using null_username_accepted_null_host_rejected [of "Parsed README_document"
        "[(''username'', JStr ''root'')]" "README_configuration\<lparr>username := JStr ''root''\<rparr>"
        README_configuration "[]"]
    by (simp add: c d)
qed





lemma isBoolean_simp [simp]: "isBoolean (JBool b)"
  by (simp add: isBoolean_def)











section \<open>Inputs that are not objects, and invalid default documents\<close>







lemma From_fails_as_Default:
  "ModelSyncConfiguration_Default file = Inl e
     \<Longrightarrow> ModelSyncConfiguration_From file raw = Inl e"
  "ModelPoolConfiguration_Default file = Inl e
     \<Longrightarrow> ModelPoolConfiguration_From file raw = Inl e"
  "ModelTransactionConfiguration_Default file = Inl e
     \<Longrightarrow> ModelTransactionConfiguration_From file raw = Inl e"
  "ModelRetryConfiguration_Default file = Inl e
     \<Longrightarrow> ModelRetryConfiguration_From file raw = Inl e"
  "ModelConfiguration_Default file = Inl e
     \<Longrightarrow> ModelConfiguration_From file raw = Inl e"
  by (simp_all add: ModelSyncConfiguration_From_def ModelPoolConfiguration_From_def
      ModelTransactionConfiguration_From_def ModelRetryConfiguration_From_def
      ModelConfiguration_From_def)

lemma invalid_document_From:
  "\<not> valid_sync_document doc \<Longrightarrow>
     ModelSyncConfiguration_From (Parsed doc) raw = ModelSyncConfiguration_Default (Parsed doc)
     \<and> throws_ModelConfigurationError (ModelSyncConfiguration_From (Parsed doc) raw)"
  "\<not> valid_pool_document doc \<Longrightarrow>
     ModelPoolConfiguration_From (Parsed doc) raw = ModelPoolConfiguration_Default (Parsed doc)
     \<and> throws_ModelConfigurationError (ModelPoolConfiguration_From (Parsed doc) raw)"
  "\<not> valid_transaction_document doc \<Longrightarrow>
     ModelTransactionConfiguration_From (Parsed doc) raw
       = ModelTransactionConfiguration_Default (Parsed doc)
     \<and> throws_ModelConfigurationError (ModelTransactionConfiguration_From (Parsed doc) raw)"
  "\<not> valid_retry_document doc \<Longrightarrow>
     ModelRetryConfiguration_From (Parsed doc) raw = ModelRetryConfiguration_Default (Parsed doc)
     \<and> throws_ModelConfigurationError (ModelRetryConfiguration_From (Parsed doc) raw)"
  "\<not> valid_document doc \<Longrightarrow>
     ModelConfiguration_From (Parsed doc) raw = ModelConfiguration_Default (Parsed doc)
     \<and> throws_ModelConfigurationError (ModelConfiguration_From (Parsed doc) raw)"
proof -
  show "ModelSyncConfiguration_From (Parsed doc) raw = ModelSyncConfiguration_Default (Parsed doc)
     \<and> throws_ModelConfigurationError (ModelSyncConfiguration_From (Parsed doc) raw)"
    if "\<not> valid_sync_document doc"
  proof (cases "ModelSyncConfiguration_Default (Parsed doc)")
    case (Inl e)
    with nested_Default_throws(1) [OF Inl] show ?thesis
      by (simp add: From_fails_as_Default)
  next
    case (Inr d)
    with that show ?thesis by (simp add: Sync_Default_Parsed)
  qed
  show "ModelPoolConfiguration_From (Parsed doc) raw = ModelPoolConfiguration_Default (Parsed doc)
     \<and> throws_ModelConfigurationError (ModelPoolConfiguration_From (Parsed doc) raw)"
    if "\<not> valid_pool_document doc"
  proof (cases "ModelPoolConfiguration_Default (Parsed doc)")
    case (Inl e)
    with nested_Default_throws(2) [OF Inl] show ?thesis
      by (simp add: From_fails_as_Default)
  next
    case (Inr d)
    with that show ?thesis by (simp add: Pool_Default_Parsed)
  qed
  show "ModelTransactionConfiguration_From (Parsed doc) raw
       = ModelTransactionConfiguration_Default (Parsed doc)
     \<and> throws_ModelConfigurationError (ModelTransactionConfiguration_From (Parsed doc) raw)"
    if "\<not> valid_transaction_document doc"
  proof (cases "ModelTransactionConfiguration_Default (Parsed doc)")
    case (Inl e)
    with nested_Default_throws(3) [OF Inl] show ?thesis
      by (simp add: From_fails_as_Default)
  next
    case (Inr d)
    with that show ?thesis by (simp add: Transaction_Default_Parsed)
  qed
  show "ModelRetryConfiguration_From (Parsed doc) raw = ModelRetryConfiguration_Default (Parsed doc)
     \<and> throws_ModelConfigurationError (ModelRetryConfiguration_From (Parsed doc) raw)"
    if "\<not> valid_retry_document doc"
  proof (cases "ModelRetryConfiguration_Default (Parsed doc)")
    case (Inl e)
    with nested_Default_throws(4) [OF Inl] show ?thesis
      by (simp add: From_fails_as_Default)
  next
    case (Inr d)
    with that show ?thesis by (simp add: Retry_Default_Parsed)
  qed
  show "ModelConfiguration_From (Parsed doc) raw = ModelConfiguration_Default (Parsed doc)
     \<and> throws_ModelConfigurationError (ModelConfiguration_From (Parsed doc) raw)"
    if "\<not> valid_document doc"
  proof (cases "ModelConfiguration_Default (Parsed doc)")
    case (Inl e)
    with Model_Default_throws [OF Inl] show ?thesis
      by (simp add: From_fails_as_Default)
  next
    case (Inr d)
    with that valid_document_of_Default [OF Inr] show ?thesis by simp
  qed
qed

text \<open>
  Claim C7. \<open>From\<close> computes \<open>Default()\<close> first. When the default document lacks a
  required field of the builder, or holds a value of the wrong type there, \<open>From\<close> fails
  as \<open>Default\<close> does, with a \<open>ModelConfigurationError\<close>, whatever the raw configuration
  provides.
\<close>

theorem From_validates_the_defaults_first:
  "(\<not> valid_sync_document doc \<longrightarrow>
      ModelSyncConfiguration_From (Parsed doc) raw = ModelSyncConfiguration_Default (Parsed doc)
      \<and> throws_ModelConfigurationError (ModelSyncConfiguration_From (Parsed doc) raw))
   \<and> (\<not> valid_pool_document doc \<longrightarrow>
      ModelPoolConfiguration_From (Parsed doc) raw = ModelPoolConfiguration_Default (Parsed doc)
      \<and> throws_ModelConfigurationError (ModelPoolConfiguration_From (Parsed doc) raw))
   \<and> (\<not> valid_transaction_document doc \<longrightarrow>
      ModelTransactionConfiguration_From (Parsed doc) raw
        = ModelTransactionConfiguration_Default (Parsed doc)
      \<and> throws_ModelConfigurationError (ModelTransactionConfiguration_From (Parsed doc) raw))
   \<and> (\<not> valid_retry_document doc \<longrightarrow>
      ModelRetryConfiguration_From (Parsed doc) raw = ModelRetryConfiguration_Default (Parsed doc)
      \<and> throws_ModelConfigurationError (ModelRetryConfiguration_From (Parsed doc) raw))
   \<and> (\<not> valid_document doc \<longrightarrow>
      ModelConfiguration_From (Parsed doc) raw = ModelConfiguration_Default (Parsed doc)
      \<and> throws_ModelConfigurationError (ModelConfiguration_From (Parsed doc) raw))"
  using invalid_document_From [of doc raw] by blast

text \<open>
  Claim C7 on an empty default document and on one whose \<open>port\<close> is a string, with a
  raw configuration that provides every field.
\<close>

theorem From_validates_the_defaults_first_witness:
  "\<not> valid_sync_document (JObj []) \<and> \<not> valid_pool_document (JObj [])
   \<and> \<not> valid_transaction_document (JObj []) \<and> \<not> valid_retry_document (JObj [])
   \<and> \<not> valid_document (JObj [])
   \<and> throws_ModelConfigurationError
        (ModelSyncConfiguration_From (Parsed (JObj [])) (the_field README_document ''sync''))
   \<and> throws_ModelConfigurationError
        (ModelPoolConfiguration_From (Parsed (JObj [])) (the_field README_document ''pool''))
   \<and> throws_ModelConfigurationError
        (ModelTransactionConfiguration_From (Parsed (JObj []))
           (the_field README_document ''transaction''))
   \<and> throws_ModelConfigurationError
        (ModelRetryConfiguration_From (Parsed (JObj [])) (the_field README_document ''retry''))
   \<and> throws_ModelConfigurationError
        (ModelConfiguration_From (Parsed (JObj [])) README_document)
   \<and> \<not> valid_document (JObj ((''port'', JStr ''3306'') # properties README_document))
   \<and> ModelConfiguration_From
        (Parsed (JObj ((''port'', JStr ''3306'') # properties README_document)))
        README_document
      = Inl (ModelConfigurationError (Caught TraverseTypeError))"
proof -
  have n: "\<not> valid_sync_document (JObj [])" "\<not> valid_pool_document (JObj [])"
    "\<not> valid_transaction_document (JObj [])" "\<not> valid_retry_document (JObj [])"
    "\<not> valid_document (JObj [])"
    "\<not> valid_document (JObj ((''port'', JStr ''3306'') # properties README_document))"
    by code_simp+
  have d: "ModelConfiguration_Default
        (Parsed (JObj ((''port'', JStr ''3306'') # properties README_document)))
      = Inl (ModelConfigurationError (Caught TraverseTypeError))"
    by code_simp
  show ?thesis
    using From_validates_the_defaults_first [of "JObj []" "the_field README_document ''sync''"]
      From_validates_the_defaults_first [of "JObj []" "the_field README_document ''pool''"]
      From_validates_the_defaults_first [of "JObj []"
        "the_field README_document ''transaction''"]
      From_validates_the_defaults_first [of "JObj []" "the_field README_document ''retry''"]
      From_validates_the_defaults_first [of "JObj []" README_document]
      From_validates_the_defaults_first
        [of "JObj ((''port'', JStr ''3306'') # properties README_document)" README_document]
      n d
    by (intro conjI) (blast, blast, blast, blast, blast, blast, blast, blast, blast, blast,
      blast, metis)
qed

section \<open>The factory on an invalid configuration\<close>

text \<open>
  Claim C8. When \<open>ModelConfiguration.From\<close> fails on the raw configuration, \<open>create\<close>
  rejects with the error wrapped in a \<open>SequelizeFactoryConfigurationError\<close>, and no call
  has been made on the client package: neither the constructor nor \<open>authenticate\<close>.
\<close>

theorem create_rejects_before_any_client_call:
  "ModelConfiguration_From file cfg = Inl e \<longrightarrow>
     create pkg file cfg waitForAuthenticate
       = (Inl (SequelizeFactoryConfigurationError e), [])"
  by (simp add: create_def)

text \<open>Claim C8 on \<open>port: "not-a-number"\<close>.\<close>

theorem create_rejects_before_any_client_call_witness:
  "ModelConfiguration_From (Parsed README_document) (JObj [(''port'', JStr ''not-a-number'')])
      = Inl (ModelConfigurationError
               (Formatted ''Load model configuration error.'' TraverseTypeError))
   \<and> create \<lparr>constructor_throws = (\<lambda>options. None), authenticate_throws = (\<lambda>options. None)\<rparr>
        (Parsed README_document) (JObj [(''port'', JStr ''not-a-number'')]) True
      = (Inl (SequelizeFactoryConfigurationError
                (ModelConfigurationError
                   (Formatted ''Load model configuration error.'' TraverseTypeError))), [])"
proof -
  have e: "ModelConfiguration_From (Parsed README_document)
        (JObj [(''port'', JStr ''not-a-number'')])
      = Inl (ModelConfigurationError
               (Formatted ''Load model configuration error.'' TraverseTypeError))"
    by code_simp
  show ?thesis
    using create_rejects_before_any_client_call [of "Parsed README_document"
        "JObj [(''port'', JStr ''not-a-number'')]"
        "ModelConfigurationError
           (Formatted ''Load model configuration error.'' TraverseTypeError)"
        "\<lparr>constructor_throws = (\<lambda>options. None), authenticate_throws = (\<lambda>options. None)\<rparr>"
        True]
    by (simp add: e)
qed

lemma create_constructs_client:
  "ModelConfiguration_From file cfg = Inr c \<Longrightarrow>
     hd (snd (create pkg file cfg waitForAuthenticate))
       = NewSequelize (ModelConfiguration_toObject c)"
  by (simp add: create_def Let_def split: option.splits)

section \<open>Serialization\<close>

text \<open>
  Claim C2, amended. \<open>toObject\<close> of the aggregate gives an object with the keys \<open>host\<close>,
  \<open>port\<close>, \<open>username\<close>, \<open>password\<close>, \<open>database\<close>, \<open>dialect\<close>, \<open>protocol\<close>, \<open>sync\<close>,
  \<open>logging\<close>, \<open>omitNull\<close>, \<open>pool\<close>, \<open>transactionType\<close>, \<open>isolationLevel\<close>, \<open>retry\<close>,
  \<open>operatorsAliases\<close>. The transaction group alone is flattened, into
  \<open>transactionType\<close> and \<open>isolationLevel\<close>; the sync, pool and retry groups are nested
  objects under \<open>sync\<close>, \<open>pool\<close> and \<open>retry\<close>.
\<close>

theorem toObject_flattens_transaction_only:
  "map fst (properties (ModelConfiguration_toObject c)) =
     [''host'', ''port'', ''username'', ''password'', ''database'', ''dialect'', ''protocol'',
      ''sync'', ''logging'', ''omitNull'', ''pool'', ''transactionType'', ''isolationLevel'',
      ''retry'', ''operatorsAliases'']
   \<and> map_of (properties (ModelConfiguration_toObject c)) ''transactionType''
      = Some (transaction_type (transactionCfg c))
   \<and> map_of (properties (ModelConfiguration_toObject c)) ''isolationLevel''
      = Some (transaction_isolationLevel (transactionCfg c))
   \<and> map_of (properties (ModelConfiguration_toObject c)) ''sync''
      = Some (JObj [(''force'', sync_force (syncCfg c)), (''alter'', sync_alter (syncCfg c))])
   \<and> map_of (properties (ModelConfiguration_toObject c)) ''pool''
      = Some (JObj [(''max'', pool_max (poolCfg c)), (''min'', pool_min (poolCfg c)),
                    (''idle'', pool_idle (poolCfg c)), (''acquire'', pool_acquire (poolCfg c)),
                    (''evict'', pool_evict (poolCfg c))])
   \<and> map_of (properties (ModelConfiguration_toObject c)) ''retry''
      = Some (JObj [(''max'', retry_max (retryCfg c))])
   \<and> map_of (properties (ModelConfiguration_toObject c)) ''host'' = Some (host c)
   \<and> map_of (properties (ModelConfiguration_toObject c)) ''port'' = Some (port c)
   \<and> map_of (properties (ModelConfiguration_toObject c)) ''username'' = Some (username c)
   \<and> map_of (properties (ModelConfiguration_toObject c)) ''password'' = Some (password c)
   \<and> map_of (properties (ModelConfiguration_toObject c)) ''database'' = Some (database c)
   \<and> map_of (properties (ModelConfiguration_toObject c)) ''dialect'' = Some (dialect c)
   \<and> map_of (properties (ModelConfiguration_toObject c)) ''protocol'' = Some (protocol c)
   \<and> map_of (properties (ModelConfiguration_toObject c)) ''logging'' = Some (logging c)
   \<and> map_of (properties (ModelConfiguration_toObject c)) ''omitNull'' = Some (omitNull c)
   \<and> map_of (properties (ModelConfiguration_toObject c)) ''operatorsAliases''
      = Some (operatorsAliases c)"
  by (simp add: ModelConfiguration_toObject_def properties_def
      ModelSyncConfiguration_toObject_def ModelPoolConfiguration_toObject_def
      ModelRetryConfiguration_toObject_def)

text \<open>
  Claim C2 as stated fails: for the defaults of the README the serialized object is not
  flat, and the sync and retry groups are not flattened into top-level keys. Its
  \<open>sync\<close> and \<open>retry\<close> are objects, and \<open>force\<close>, \<open>alter\<close> and \<open>max\<close> are not keys of it.
\<close>

theorem toObject_sync_retry_nested_counterexample:
  "map_of (properties (ModelConfiguration_toObject README_configuration)) ''sync''
      = Some (JObj [(''force'', JBool False), (''alter'', JBool False)])
   \<and> map_of (properties (ModelConfiguration_toObject README_configuration)) ''force'' = None
   \<and> map_of (properties (ModelConfiguration_toObject README_configuration)) ''alter'' = None
   \<and> map_of (properties (ModelConfiguration_toObject README_configuration)) ''retry''
      = Some (JObj [(''max'', JInt 4)])
   \<and> map_of (properties (ModelConfiguration_toObject README_configuration)) ''max'' = None"
  by (simp add: ModelConfiguration_toObject_def properties_def README_configuration_def
      ModelSyncConfiguration_toObject_def ModelPoolConfiguration_toObject_def
      ModelRetryConfiguration_toObject_def)

section \<open>The optional lookup in the builders\<close>







end
